theory Spec2Isabelle
  imports Main
begin

section \<open>Strings and numbers as the TypeScript sources use them\<close>

text \<open>
  A string is a list of code units; the development covers the code units below 256.
  \<open>String.prototype.trim\<close> removes white space and line terminators from both ends;
  in this range they are TAB, LF, VT, FF, CR, SPACE and NBSP.
\<close>

definition is_ws :: "char \<Rightarrow> bool" where
  "is_ws c = (of_char c \<in> {9, 10, 11, 12, 13, 32, 160 :: nat})"

definition trim :: "string \<Rightarrow> string" where
  "trim s = rev (dropWhile is_ws (rev (dropWhile is_ws s)))"

text \<open>\<open>Array.prototype.join\<close> on an array of strings.\<close>

fun join :: "string \<Rightarrow> string list \<Rightarrow> string" where
  "join sep [] = []"
| "join sep [x] = x"
| "join sep (x # y # ys) = x @ sep @ join sep (y # ys)"

text \<open>
  A string that may be \<open>undefined\<close> is a \<open>string option\<close>. In a condition the empty
  string and \<open>undefined\<close> are falsy; \<open>a || b\<close> yields \<open>b\<close> exactly when \<open>a\<close> is falsy.
\<close>

definition truthy_str :: "string option \<Rightarrow> bool" where
  "truthy_str s = (case s of None \<Rightarrow> False | Some v \<Rightarrow> v \<noteq> [])"

definition or_default :: "string option \<Rightarrow> string \<Rightarrow> string" where
  "or_default s d = (if truthy_str s then the s else d)"

text \<open>\<open>xs?.length\<close> in a condition: falsy for \<open>undefined\<close> and for length 0.\<close>

definition truthy_length :: "'a list option \<Rightarrow> bool" where
  "truthy_length xs = (case xs of None \<Rightarrow> False | Some v \<Rightarrow> length v \<noteq> 0)"

text \<open>Decimal rendering of an integer inside a template literal.\<close>

definition digit_char :: "nat \<Rightarrow> char" where
  "digit_char d = char_of (48 + d)"

fun show_nat :: "nat \<Rightarrow> string" where
  "show_nat n = (if n < 10 then [digit_char n] else show_nat (n div 10) @ [digit_char (n mod 10)])"

declare show_nat.simps [simp del]

definition show_int :: "int \<Rightarrow> string" where
  "show_int i = (if i < 0 then CHR ''-'' # show_nat (nat (- i)) else show_nat (nat i))"

text \<open>Values produced by \<open>JSON.parse\<close>; an object is its list of properties.\<close>

datatype json =
    JNull
  | JBool bool
  | JNum int
  | JStr string
  | JArr "json list"
  | JObj "(string \<times> json) list"

section \<open>NodeOAuthClientProvider: data\<close>

record client_info =
  client_id :: string
  redirect_uris :: "string list"
  ci_scope :: "string option"

text \<open>
  The static client metadata override: its \<open>scope\<close>, and its other properties by name
  (they are spread over the defaults of \<open>clientMetadata\<close>).
\<close>

record static_metadata =
  sm_scope :: "string option"
  sm_fields :: "string \<rightharpoonup> json"

record server_metadata =
  issuer :: string
  as_scopes_supported :: "string list option"

record resource_metadata =
  resource :: string
  pr_scopes_supported :: "string list option"

datatype auth_mode = Local | Bridge

record provider_options =
  o_serverUrl :: string
  o_callbackPort :: nat
  o_host :: string
  o_callbackPath :: "string option"
  o_clientName :: "string option"
  o_clientUri :: "string option"
  o_softwareId :: "string option"
  o_softwareVersion :: "string option"
  o_staticOAuthClientMetadata :: "static_metadata option"
  o_staticOAuthClientInfo :: "client_info option"
  o_authorizeResource :: "string option"
  o_serverUrlHash :: string
  o_redirectUrl :: "string option"
  o_authMode :: "auth_mode option"
  o_authBridgeNotifyUrl :: "string option"
  o_authSessionId :: "string option"
  o_authorizationServerMetadata :: "server_metadata option"
  o_protectedResourceMetadata :: "resource_metadata option"
  o_wwwAuthenticateScope :: "string option"

record provider =
  options :: provider_options
  serverUrlHash :: string
  callbackPath :: string
  clientName :: string
  clientUri :: string
  softwareId :: string
  softwareVersion :: string
  staticOAuthClientMetadata :: "static_metadata option"
  staticOAuthClientInfo :: "client_info option"
  authorizeResource :: "string option"
  p_state :: string
  p_clientInfo :: "client_info option"
  authorizationServerMetadata :: "server_metadata option"
  protectedResourceMetadata :: "resource_metadata option"
  wwwAuthenticateScope :: "string option"

text \<open>
  The constructor. \<open>MCP_REMOTE_VERSION\<close> is a constant of \<open>utils\<close> and \<open>randomUUID()\<close>
  a draw from the runtime; both are parameters.
\<close>

definition NodeOAuthClientProvider :: "string \<Rightarrow> string \<Rightarrow> provider_options \<Rightarrow> provider" where
  "NodeOAuthClientProvider version uuid opts =
     \<lparr> options = opts,
       serverUrlHash = o_serverUrlHash opts,
       callbackPath = or_default (o_callbackPath opts) ''/oauth/callback'',
       clientName = or_default (o_clientName opts) ''MCP CLI Client'',
       clientUri = or_default (o_clientUri opts) ''https://github.com/modelcontextprotocol/mcp-cli'',
       softwareId = or_default (o_softwareId opts) ''2e6dc280-f3c3-4e01-99a7-8181dbd1d23d'',
       softwareVersion = or_default (o_softwareVersion opts) version,
       staticOAuthClientMetadata = o_staticOAuthClientMetadata opts,
       staticOAuthClientInfo = o_staticOAuthClientInfo opts,
       authorizeResource = o_authorizeResource opts,
       p_state = or_default (o_authSessionId opts) uuid,
       p_clientInfo = None,
       authorizationServerMetadata = o_authorizationServerMetadata opts,
       protectedResourceMetadata = o_protectedResourceMetadata opts,
       wwwAuthenticateScope = o_wwwAuthenticateScope opts \<rparr>"

section \<open>Scope resolution\<close>

text \<open>The optional chains \<open>this.x?.scope\<close> and \<open>this.x?.scopes_supported\<close>.\<close>

definition static_scope :: "provider \<Rightarrow> string option" where
  "static_scope p = (case staticOAuthClientMetadata p of None \<Rightarrow> None | Some m \<Rightarrow> sm_scope m)"

definition registered_scope :: "provider \<Rightarrow> string option" where
  "registered_scope p = (case p_clientInfo p of None \<Rightarrow> None | Some c \<Rightarrow> ci_scope c)"

definition resource_scopes :: "provider \<Rightarrow> string list option" where
  "resource_scopes p =
     (case protectedResourceMetadata p of None \<Rightarrow> None | Some m \<Rightarrow> pr_scopes_supported m)"

definition server_scopes :: "provider \<Rightarrow> string list option" where
  "server_scopes p =
     (case authorizationServerMetadata p of None \<Rightarrow> None | Some m \<Rightarrow> as_scopes_supported m)"

definition getEffectiveScope :: "provider \<Rightarrow> string" where
  "getEffectiveScope p =
     (if truthy_str (static_scope p) \<and> length (trim (the (static_scope p))) > 0
        then the (static_scope p)
      else if truthy_str (wwwAuthenticateScope p) \<and> length (trim (the (wwwAuthenticateScope p))) > 0
        then the (wwwAuthenticateScope p)
      else if truthy_length (resource_scopes p)
        then join '' '' (the (resource_scopes p))
      else if truthy_str (registered_scope p) \<and> length (trim (the (registered_scope p))) > 0
        then the (registered_scope p)
      else if truthy_length (server_scopes p)
        then join '' '' (the (server_scopes p))
      else ''openid email profile'')"

definition redirectUrl :: "provider \<Rightarrow> string" where
  "redirectUrl p =
     (if truthy_str (o_redirectUrl (options p)) then the (o_redirectUrl (options p))
      else ''http://'' @ o_host (options p) @ '':'' @ show_nat (o_callbackPort (options p))
             @ callbackPath p)"

text \<open>
  The \<open>clientMetadata\<close> getter: the fixed properties, the static override spread over
  them, and \<open>scope\<close> written last.
\<close>

record client_metadata =
  cm_fields :: "string \<rightharpoonup> json"
  cm_scope :: string

definition metadata_defaults :: "provider \<Rightarrow> (string \<rightharpoonup> json)" where
  "metadata_defaults p =
     [''redirect_uris'' \<mapsto> JArr [JStr (redirectUrl p)],
      ''token_endpoint_auth_method'' \<mapsto> JStr ''none'',
      ''grant_types'' \<mapsto> JArr [JStr ''authorization_code'', JStr ''refresh_token''],
      ''response_types'' \<mapsto> JArr [JStr ''code''],
      ''client_name'' \<mapsto> JStr (clientName p),
      ''client_uri'' \<mapsto> JStr (clientUri p),
      ''software_id'' \<mapsto> JStr (softwareId p),
      ''software_version'' \<mapsto> JStr (softwareVersion p)]"

definition clientMetadata :: "provider \<Rightarrow> client_metadata" where
  "clientMetadata p =
     (let effectiveScope = getEffectiveScope p
      in \<lparr> cm_fields = metadata_defaults p ++
                          (case staticOAuthClientMetadata p of None \<Rightarrow> Map.empty
                           | Some m \<Rightarrow> sm_fields m),
           cm_scope = effectiveScope \<rparr>)"

text \<open>
  The resolver in the words of the specification: six ordered sources, the two metadata
  lists space-joined, and the first source that is non-empty after trimming wins.
\<close>

definition scope_sources :: "provider \<Rightarrow> string option list" where
  "scope_sources p =
     [static_scope p,
      wwwAuthenticateScope p,
      map_option (join '' '') (resource_scopes p),
      registered_scope p,
      map_option (join '' '') (server_scopes p),
      Some ''openid email profile'']"

fun first_non_empty :: "string option list \<Rightarrow> string option" where
  "first_non_empty [] = None"
| "first_non_empty (None # rest) = first_non_empty rest"
| "first_non_empty (Some s # rest) = (if trim s \<noteq> [] then Some s else first_non_empty rest)"

text \<open>
  The same list with the guard the code has on the two metadata tiers: a list source
  counts as soon as the list has an element.
\<close>

definition text_source :: "string option \<Rightarrow> string option" where
  "text_source s = (case s of None \<Rightarrow> None | Some v \<Rightarrow> if trim v \<noteq> [] then Some v else None)"

definition list_source :: "string list option \<Rightarrow> string option" where
  "list_source xs = (case xs of None \<Rightarrow> None | Some v \<Rightarrow> if v \<noteq> [] then Some (join '' '' v) else None)"

definition applicable_sources :: "provider \<Rightarrow> string option list" where
  "applicable_sources p =
     [text_source (static_scope p),
      text_source (wwwAuthenticateScope p),
      list_source (resource_scopes p),
      text_source (registered_scope p),
      list_source (server_scopes p),
      Some ''openid email profile'']"

fun first_present :: "string option list \<Rightarrow> string option" where
  "first_present [] = None"
| "first_present (None # rest) = first_present rest"
| "first_present (Some s # rest) = Some s"

text \<open>
  Neither metadata tier holds a list that has elements and yet joins to a string that is
  empty after trimming.
\<close>

definition lists_not_blank :: "provider \<Rightarrow> bool" where
  "lists_not_blank p =
     ((case resource_scopes p of None \<Rightarrow> True
       | Some v \<Rightarrow> v = [] \<or> trim (join '' '' v) \<noteq> []) \<and>
      (case server_scopes p of None \<Rightarrow> True
       | Some v \<Rightarrow> v = [] \<or> trim (join '' '' v) \<noteq> []))"

section \<open>The persisted credential files\<close>

record tokens =
  access_token :: string
  refresh_token :: "string option"
  expires_in :: "int option"

datatype content =
    ClientInfoFile client_info
  | TokensFile tokens
  | TextFile string

datatype io_event =
    ReadFile string string
  | WriteFile string string
  | DeleteFile string string

text \<open>
  Modelled from the spec: the store behind \<open>mcp-auth-config\<close>, whose primitives are not
  part of the sources. The specification describes a per-identity key-value store of
  JSON or text blobs, keyed by server identity and file name. The model also records
  every access, in order.
\<close>

record config_store =
  files :: "(string \<times> string) \<rightharpoonup> content"
  io_log :: "io_event list"

text \<open>
  Modelled from the spec: \<open>readJsonFile\<close> for the registration file. The read validates
  against the schema it is given and treats malformed content as absent.
\<close>

definition readJsonFile_client_info ::
  "(client_info \<Rightarrow> bool) \<Rightarrow> config_store \<Rightarrow> string \<Rightarrow> string \<Rightarrow> client_info option \<times> config_store" where
  "readJsonFile_client_info schema st h f =
     ((case files st (h, f) of
         Some (ClientInfoFile c) \<Rightarrow> if schema c then Some c else None
       | _ \<Rightarrow> None),
      st\<lparr> io_log := io_log st @ [ReadFile h f] \<rparr>)"

text \<open>Modelled from the spec: \<open>writeJsonFile\<close> overwrites the blob under the key.\<close>

definition writeJsonFile :: "config_store \<Rightarrow> string \<Rightarrow> string \<Rightarrow> content \<Rightarrow> config_store" where
  "writeJsonFile st h f c =
     st\<lparr> files := (files st)((h, f) \<mapsto> c), io_log := io_log st @ [WriteFile h f] \<rparr>"

text \<open>Modelled from the spec: \<open>writeTextFile\<close> overwrites the text under the key.\<close>

definition writeTextFile :: "config_store \<Rightarrow> string \<Rightarrow> string \<Rightarrow> string \<Rightarrow> config_store" where
  "writeTextFile st h f t =
     st\<lparr> files := (files st)((h, f) \<mapsto> TextFile t), io_log := io_log st @ [WriteFile h f] \<rparr>"

text \<open>Modelled from the spec: \<open>deleteConfigFile\<close> removes the one file under the key.\<close>

definition deleteConfigFile :: "config_store \<Rightarrow> string \<Rightarrow> string \<Rightarrow> config_store" where
  "deleteConfigFile st h f =
     st\<lparr> files := (files st)((h, f) := None), io_log := io_log st @ [DeleteFile h f] \<rparr>"

section \<open>NodeOAuthClientProvider: the credential operations\<close>

text \<open>
  A method reads and writes the fields of the provider and the store; it takes both and
  returns both. \<open>OAuthClientInformationFullSchema\<close> belongs to the SDK and is a parameter.
\<close>

definition clientInformation ::
  "(client_info \<Rightarrow> bool) \<Rightarrow> provider \<times> config_store \<Rightarrow> client_info option \<times> provider \<times> config_store" where
  "clientInformation schema ps =
     (case ps of (p, st) \<Rightarrow>
        if staticOAuthClientInfo p \<noteq> None
          then (staticOAuthClientInfo p, p\<lparr> p_clientInfo := staticOAuthClientInfo p \<rparr>, st)
        else
          (case readJsonFile_client_info schema st (serverUrlHash p) ''client_info.json'' of
             (clientInfo, st') \<Rightarrow>
               (clientInfo,
                (if clientInfo \<noteq> None then p\<lparr> p_clientInfo := clientInfo \<rparr> else p),
                st')))"

definition saveClientInformation :: "client_info \<Rightarrow> provider \<times> config_store \<Rightarrow> provider \<times> config_store" where
  "saveClientInformation info ps =
     (case ps of (p, st) \<Rightarrow>
        (p\<lparr> p_clientInfo := Some info \<rparr>,
         writeJsonFile st (serverUrlHash p) ''client_info.json'' (ClientInfoFile info)))"

definition saveTokens :: "tokens \<Rightarrow> provider \<times> config_store \<Rightarrow> provider \<times> config_store" where
  "saveTokens t ps =
     (case ps of (p, st) \<Rightarrow> (p, writeJsonFile st (serverUrlHash p) ''tokens.json'' (TokensFile t)))"

definition saveCodeVerifier :: "string \<Rightarrow> provider \<times> config_store \<Rightarrow> provider \<times> config_store" where
  "saveCodeVerifier codeVerifier ps =
     (case ps of (p, st) \<Rightarrow> (p, writeTextFile st (serverUrlHash p) ''code_verifier.txt'' codeVerifier))"

text \<open>
  \<open>invalidateCredentials\<close>: the argument is the string the caller passes; the result is
  the raised message (\<open>Inl\<close>) or normal completion, with the state the call leaves.
\<close>

definition invalidateCredentials ::
  "string \<Rightarrow> provider \<times> config_store \<Rightarrow> (string + unit) \<times> provider \<times> config_store" where
  "invalidateCredentials scope ps =
     (case ps of (p, st) \<Rightarrow>
        if scope = ''all'' then
          (Inr (),
           p\<lparr> p_clientInfo := None \<rparr>,
           deleteConfigFile
             (deleteConfigFile
                (deleteConfigFile st (serverUrlHash p) ''client_info.json'')
                (serverUrlHash p) ''tokens.json'')
             (serverUrlHash p) ''code_verifier.txt'')
        else if scope = ''client'' then
          (Inr (),
           p\<lparr> p_clientInfo := None \<rparr>,
           deleteConfigFile st (serverUrlHash p) ''client_info.json'')
        else if scope = ''tokens'' then
          (Inr (), p, deleteConfigFile st (serverUrlHash p) ''tokens.json'')
        else if scope = ''verifier'' then
          (Inr (), p, deleteConfigFile st (serverUrlHash p) ''code_verifier.txt'')
        else (Inl (''Unknown credential scope: '' @ scope), p, st))"

text \<open>No scope source other than the cached registration applies.\<close>

definition no_other_scope_source :: "provider \<Rightarrow> bool" where
  "no_other_scope_source p =
     (text_source (static_scope p) = None \<and> text_source (wwwAuthenticateScope p) = None \<and>
      list_source (resource_scopes p) = None \<and> list_source (server_scopes p) = None)"

section \<open>Example providers\<close>

text \<open>The options of the test suite, and a fresh store.\<close>

definition defaultOptions :: provider_options where
  "defaultOptions =
     \<lparr> o_serverUrl = ''https://example.com'', o_callbackPort = 8080, o_host = ''localhost'',
       o_callbackPath = None, o_clientName = None, o_clientUri = None, o_softwareId = None,
       o_softwareVersion = None, o_staticOAuthClientMetadata = None,
       o_staticOAuthClientInfo = None, o_authorizeResource = None,
       o_serverUrlHash = ''test-hash'', o_redirectUrl = None, o_authMode = None,
       o_authBridgeNotifyUrl = None, o_authSessionId = None,
       o_authorizationServerMetadata = None, o_protectedResourceMetadata = None,
       o_wwwAuthenticateScope = None \<rparr>"

definition test_provider :: "provider_options \<Rightarrow> provider" where
  "test_provider opts = NodeOAuthClientProvider ''1.0.0'' ''00000000-0000-4000-8000-000000000000'' opts"

definition empty_store :: config_store where
  "empty_store = \<lparr> files = Map.empty, io_log = [] \<rparr>"

definition registered_client :: "string \<Rightarrow> client_info" where
  "registered_client sc =
     \<lparr> client_id = ''test-client'', redirect_uris = [''http://localhost:8080/oauth/callback''],
       ci_scope = Some sc \<rparr>"

text \<open>
  Protected-resource metadata advertises one scope, the empty string, and the
  registration response carried the scope \<open>read\<close>.
\<close>

definition blank_resource_scope_provider :: provider where
  "blank_resource_scope_provider =
     (test_provider
        (defaultOptions\<lparr> o_protectedResourceMetadata :=
           Some \<lparr> resource = ''https://example.com'', pr_scopes_supported = Some [''''] \<rparr> \<rparr>))
     \<lparr> p_clientInfo := Some (registered_client ''read'') \<rparr>"

text \<open>
  Authorization-server metadata advertises \<open>openid\<close> and \<open>email\<close>, and the registration
  response carried a longer scope.
\<close>

definition registered_scope_provider :: provider where
  "registered_scope_provider =
     (test_provider
        (defaultOptions\<lparr> o_authorizationServerMetadata :=
           Some \<lparr> issuer = ''https://example.com'',
                  as_scopes_supported = Some [''openid'', ''email''] \<rparr> \<rparr>))
     \<lparr> p_clientInfo := Some (registered_client ''openid email profile custom:read'') \<rparr>"

text \<open>A provider with a static client-info override.\<close>

definition static_client :: client_info where
  "static_client =
     \<lparr> client_id = ''static-client'', redirect_uris = [''http://localhost:8080/oauth/callback''],
       ci_scope = None \<rparr>"

definition static_info_provider :: provider where
  "static_info_provider =
     test_provider (defaultOptions\<lparr> o_staticOAuthClientInfo := Some static_client \<rparr>)"

text \<open>The three credential files of a provider, as keys of the store.\<close>

definition client_file :: "provider \<Rightarrow> string \<times> string" where
  "client_file p = (serverUrlHash p, ''client_info.json'')"

definition tokens_file :: "provider \<Rightarrow> string \<times> string" where
  "tokens_file p = (serverUrlHash p, ''tokens.json'')"

definition verifier_file :: "provider \<Rightarrow> string \<times> string" where
  "verifier_file p = (serverUrlHash p, ''code_verifier.txt'')"

text \<open>
  A provider that has saved a registration with its own scope, a token set and a PKCE
  verifier.
\<close>

definition saved_credentials :: "provider \<times> config_store" where
  "saved_credentials =
     saveCodeVerifier ''verifier-1''
       (saveTokens \<lparr> access_token = ''token-1'', refresh_token = None, expires_in = Some 3600 \<rparr>
          (saveClientInformation (registered_client ''extracted custom scopes'')
             (test_provider defaultOptions, empty_store)))"

section \<open>The runtime of the coordinating process\<close>

text \<open>The lock record; times are whole milliseconds since the epoch, as \<open>Date.now()\<close>
  gives them.\<close>

record LockfileData =
  pid :: nat
  port :: nat
  timestamp :: int

text \<open>What the network gives to one request: a response (status and body) or a failure
  (the message of the rejection), after a latency in milliseconds.\<close>

datatype net_outcome = Answer nat string | NetworkError string

record net_event =
  ev_outcome :: net_outcome
  ev_latency :: nat

text \<open>The closure a coordinator state carries as \<open>waitForAuthCode\<close>, by where it is built.\<close>

datatype wait_for_auth_code =
    CallbackWait nat int
  | DummyWait
  | BridgeWait string int int
  | EmitOnlyWait

datatype server_handle = CallbackServer nat | DummyServer

record AuthCoordinatorState =
  server :: "server_handle option"
  waitForAuthCode :: wait_for_auth_code
  skipBrowserAuth :: bool

datatype effect =
    CheckLockfile string
  | DeleteLockfile string
  | CreateLockfile string nat nat
  | Kill nat
  | Fetch string
  | Sleep int
  | StartCallbackServer nat
  | StartDummyServer
  | OnceExit string
  | OnceSigint string

text \<open>How a promise settles; \<open>Pending\<close> is a promise that never settles.\<close>

datatype 'a promise = Resolves 'a | Rejects string | Pending

text \<open>
  The process and what surrounds it: the platform, the clock, the lock records, the
  other processes, the network, the callback server, the built-ins of the language, the
  objects allocated so far, and the effects performed so far, in order.
  \<^item> \<open>lockfiles\<close> holds the lock record of each server identity.
  \<^item> \<open>kill0 pid\<close> is \<open>process.kill(pid, 0)\<close>: \<open>None\<close> when it returns, the error when it
    throws.
  \<^item> \<open>net k url\<close> is what the \<open>k\<close>-th request of this process meets when sent to \<open>url\<close>.
  \<^item> \<open>listen p\<close> is the port the callback server reports once it listens, when asked
    for port \<open>p\<close>; \<open>None\<close> when it reports no address.
  \<^item> \<open>callback_wait\<close> is how the \<open>waitForAuthCode\<close> of that server settles.
  \<^item> \<open>JSON_parse\<close> (\<open>None\<close> when it throws), \<open>encodeURIComponent\<close>, and \<open>URL_with_params\<close>
    (\<open>new URL(u)\<close> with query parameters set, \<open>None\<close> when \<open>u\<close> is not a URL).
\<close>

record world =
  platform :: string
  process_pid :: nat
  now :: int
  lockfiles :: "string \<rightharpoonup> LockfileData"
  kill0 :: "nat \<Rightarrow> string option"
  net :: "nat \<Rightarrow> string \<Rightarrow> net_event"
  fetched :: nat
  listen :: "nat \<Rightarrow> nat option"
  callback_wait :: "nat \<Rightarrow> int \<Rightarrow> json promise"
  JSON_parse :: "string \<Rightarrow> json option"
  encodeURIComponent :: "string \<Rightarrow> string"
  URL_with_params :: "string \<Rightarrow> (string \<times> string) list \<Rightarrow> string option"
  heap :: "AuthCoordinatorState list"
  effects :: "effect list"

definition perform :: "effect \<Rightarrow> world \<Rightarrow> world" where
  "perform e w = w\<lparr> effects := effects w @ [e] \<rparr>"

text \<open>
  \<open>fetch(url, {signal})\<close>: the request meets the next network event. With an abort
  signal of \<open>ms\<close> milliseconds, an answer counts only when it arrives before the signal
  fires; otherwise the call rejects.
\<close>

definition fetch_result :: "world \<Rightarrow> string \<Rightarrow> nat option \<Rightarrow> net_outcome" where
  "fetch_result w url abort_after =
     (let ev = net w (fetched w) url in
      case abort_after of
        None \<Rightarrow> ev_outcome ev
      | Some ms \<Rightarrow> if ev_latency ev < ms then ev_outcome ev
                   else NetworkError ''The operation was aborted'')"

definition after_fetch :: "world \<Rightarrow> string \<Rightarrow> nat option \<Rightarrow> world" where
  "after_fetch w url abort_after =
     (let ev = net w (fetched w) url in
      w\<lparr> now := now w + int (case abort_after of None \<Rightarrow> ev_latency ev
                                | Some ms \<Rightarrow> min (ev_latency ev) ms),
         fetched := Suc (fetched w),
         effects := effects w @ [Fetch url] \<rparr>)"

text \<open>
  \<open>await new Promise((resolve) => setTimeout(resolve, ms))\<close>. The runtime sets a delay
  below 1 or above \<open>2147483647\<close> to 1.
\<close>

definition timer_delay :: "int \<Rightarrow> int" where
  "timer_delay ms = (if ms < 1 \<or> ms > 2147483647 then 1 else ms)"

definition sleep :: "world \<Rightarrow> int \<Rightarrow> world" where
  "sleep w ms = w\<lparr> now := now w + timer_delay ms, effects := effects w @ [Sleep ms] \<rparr>"

text \<open>
  Modelled from the spec: \<open>checkLockfile\<close> of \<open>mcp-auth-config\<close> is not part of the
  sources. The specification has one lock record \<open>{pid, port, timestamp}\<close> per server
  identity; the read returns it, or nothing when there is none.
\<close>

definition checkLockfile :: "world \<Rightarrow> string \<Rightarrow> LockfileData option \<times> world" where
  "checkLockfile w h = (lockfiles w h, perform (CheckLockfile h) w)"

text \<open>
  Modelled from the spec: \<open>createLockfile\<close> is not part of the sources. It writes the
  record of the owner and port, stamped with the current time.
\<close>

definition createLockfile :: "world \<Rightarrow> string \<Rightarrow> nat \<Rightarrow> nat \<Rightarrow> world" where
  "createLockfile w h owner p =
     perform (CreateLockfile h owner p)
       (w\<lparr> lockfiles := (lockfiles w)(h \<mapsto> \<lparr> pid = owner, port = p, timestamp = now w \<rparr>) \<rparr>)"

text \<open>Modelled from the spec: \<open>deleteLockfile\<close> is not part of the sources. It removes
  the record of the server identity.\<close>

definition deleteLockfile :: "world \<Rightarrow> string \<Rightarrow> world" where
  "deleteLockfile w h = perform (DeleteLockfile h) (w\<lparr> lockfiles := (lockfiles w)(h := None) \<rparr>)"

text \<open>
  Modelled from the spec: \<open>setupOAuthCallbackServerWithLongPoll\<close> of \<open>utils\<close> is not part
  of the sources. It starts the callback endpoint on the configured port (0 for a port
  the system assigns). The result here is the address the server reports once it
  listens, which is all \<open>coordinateAuth\<close> reads of it.
\<close>

definition setupOAuthCallbackServerWithLongPoll :: "world \<Rightarrow> nat \<Rightarrow> nat option \<times> world" where
  "setupOAuthCallbackServerWithLongPoll w p = (listen w p, perform (StartCallbackServer p) w)"

text \<open>An object literal that is returned: a new object, known by its address.\<close>

definition new_object :: "world \<Rightarrow> AuthCoordinatorState \<Rightarrow> nat \<times> world" where
  "new_object w s = (length (heap w), w\<lparr> heap := heap w @ [s] \<rparr>)"

section \<open>Lock validity and adoption\<close>

definition isPidRunning :: "world \<Rightarrow> nat \<Rightarrow> bool \<times> world" where
  "isPidRunning w p =
     (case kill0 w p of
        None \<Rightarrow> (True, perform (Kill p) w)
      | Some err \<Rightarrow> (False, perform (Kill p) w))"

definition MAX_LOCK_AGE :: int where
  "MAX_LOCK_AGE = 30 * 60 * 1000"

definition probe_url :: "nat \<Rightarrow> string" where
  "probe_url p = ''http://127.0.0.1:'' @ show_nat p @ ''/wait-for-auth?poll=false''"

definition isLockValid :: "world \<Rightarrow> LockfileData \<Rightarrow> bool \<times> world" where
  "isLockValid w lockData =
     (if now w - timestamp lockData > MAX_LOCK_AGE then (False, w)
      else
        (case isPidRunning w (pid lockData) of
           (alive, w1) \<Rightarrow>
             if \<not> alive then (False, w1)
             else
               (case fetch_result w1 (probe_url (port lockData)) (Some 1000) of
                  Answer status body \<Rightarrow>
                    (status = 200 \<or> status = 202,
                     after_fetch w1 (probe_url (port lockData)) (Some 1000))
                | NetworkError err \<Rightarrow>
                    (False, after_fetch w1 (probe_url (port lockData)) (Some 1000)))))"

definition wait_url :: "nat \<Rightarrow> string" where
  "wait_url p = ''http://127.0.0.1:'' @ show_nat p @ ''/wait-for-auth''"

text \<open>The unbounded loop of \<open>waitForAuthentication\<close>; \<open>None\<close> when it never returns.\<close>

partial_function (option) waitForAuthentication :: "world \<Rightarrow> nat \<Rightarrow> (bool \<times> world) option" where
  "waitForAuthentication w p =
     (case fetch_result w (wait_url p) None of
        Answer status body \<Rightarrow>
          if status = 200 then Some (True, after_fetch w (wait_url p) None)
          else if status = 202 then
            waitForAuthentication (sleep (after_fetch w (wait_url p) None) 1000) p
          else Some (False, after_fetch w (wait_url p) None)
      | NetworkError err \<Rightarrow>
          waitForAuthentication (sleep (after_fetch w (wait_url p) None) 2000) p)"

section \<open>coordinateAuth\<close>

text \<open>\<open>new Promise(executor)\<close>, by the calls the executor makes on its two arguments
  before it drops them: the first call settles the promise, and with no call nothing
  ever will.\<close>

datatype settle_call = CallResolve json | CallReject string

definition new_Promise :: "settle_call list \<Rightarrow> json promise" where
  "new_Promise calls =
     (case calls of
        [] \<Rightarrow> Pending
      | CallResolve v # rest \<Rightarrow> Resolves v
      | CallReject e # rest \<Rightarrow> Rejects e)"

definition dummyWaitForAuthCode :: "json promise" where
  "dummyWaitForAuthCode = new_Promise []"

text \<open>The part of \<open>coordinateAuth\<close> from "Create our own lockfile" on.\<close>

definition become_primary :: "world \<Rightarrow> string \<Rightarrow> nat \<Rightarrow> int \<Rightarrow> (string + nat) \<times> world" where
  "become_primary w urlHash callbackPort authTimeoutMs =
     (case setupOAuthCallbackServerWithLongPoll w callbackPort of
        (None, w1) \<Rightarrow> (Inl ''Failed to get server address after listening event'', w1)
      | (Some actualPort, w1) \<Rightarrow>
          (let w2 = createLockfile w1 urlHash (process_pid w1) actualPort;
               w3 = perform (OnceSigint urlHash) (perform (OnceExit urlHash) w2)
           in case new_object w3
                \<lparr> server = Some (CallbackServer actualPort),
                  waitForAuthCode = CallbackWait actualPort authTimeoutMs,
                  skipBrowserAuth = False \<rparr>
              of (r, w4) \<Rightarrow> (Inr r, w4)))"

text \<open>The lock record \<open>coordinateAuth\<close> starts from: none on Windows.\<close>

definition existing_lock :: "world \<Rightarrow> string \<Rightarrow> LockfileData option \<times> world" where
  "existing_lock w urlHash =
     (if platform w = ''win32'' then (None, w) else checkLockfile w urlHash)"

definition coordinateAuth ::
  "world \<Rightarrow> string \<Rightarrow> nat \<Rightarrow> int \<Rightarrow> ((string + nat) \<times> world) option" where
  "coordinateAuth w urlHash callbackPort authTimeoutMs =
     (case existing_lock w urlHash of
        (None, w1) \<Rightarrow> Some (become_primary w1 urlHash callbackPort authTimeoutMs)
      | (Some lockData, w1) \<Rightarrow>
          (case isLockValid w1 lockData of
             (True, w2) \<Rightarrow>
               (case waitForAuthentication w2 (port lockData) of
                  None \<Rightarrow> None
                | Some (True, w3) \<Rightarrow>
                    (case new_object (perform StartDummyServer w3)
                       \<lparr> server = Some DummyServer,
                         waitForAuthCode = DummyWait,
                         skipBrowserAuth = True \<rparr>
                     of (r, w4) \<Rightarrow> Some (Inr r, w4))
                | Some (False, w3) \<Rightarrow>
                    Some (become_primary (deleteLockfile w3 urlHash)
                            urlHash callbackPort authTimeoutMs))
           | (False, w2) \<Rightarrow>
               Some (become_primary (deleteLockfile w2 urlHash)
                       urlHash callbackPort authTimeoutMs)))"

section \<open>Bridge polling\<close>

text \<open>\<open>String.prototype.replaceAll\<close> with a non-empty string pattern.\<close>

function replaceAll :: "string \<Rightarrow> string \<Rightarrow> string \<Rightarrow> string" where
  "replaceAll pat rep s =
     (if s = [] \<or> pat = [] then s
      else if take (length pat) s = pat then rep @ replaceAll pat rep (drop (length pat) s)
      else hd s # replaceAll pat rep (tl s))"
  by pat_completeness auto
termination
  by (relation "measure (\<lambda>(pat, rep, s). length s)") auto

declare replaceAll.simps [simp del]

definition resolveBridgePollUrl :: "world \<Rightarrow> string \<Rightarrow> string \<Rightarrow> string \<Rightarrow> string + string" where
  "resolveBridgePollUrl w template authSessionId urlHash =
     (let withPlaceholders =
            replaceAll ''{server_url_hash}'' (encodeURIComponent w urlHash)
              (replaceAll ''{session_id}'' (encodeURIComponent w authSessionId) template);
          hasPlaceholder = (withPlaceholders \<noteq> template)
      in if hasPlaceholder then Inr withPlaceholders
         else
           (case URL_with_params w withPlaceholders
                   [(''session_id'', authSessionId), (''server_url_hash'', urlHash)] of
              None \<Rightarrow> Inl ''Invalid URL''
            | Some url \<Rightarrow> Inr url))"

text \<open>Truthiness of a parsed value, and of a value that may be \<open>undefined\<close>.\<close>

fun truthy :: "json \<Rightarrow> bool" where
  "truthy JNull = False"
| "truthy (JBool b) = b"
| "truthy (JNum n) = (n \<noteq> 0)"
| "truthy (JStr s) = (s \<noteq> [])"
| "truthy (JArr xs) = True"
| "truthy (JObj ps) = True"

definition truthy_opt :: "json option \<Rightarrow> bool" where
  "truthy_opt v = (case v of None \<Rightarrow> False | Some x \<Rightarrow> truthy x)"

text \<open>
  \<open>extractAuthCode\<close>. Reading a property of \<open>null\<close> throws inside the \<open>try\<close>, which gives
  \<open>undefined\<close>; a boolean, number, string or array has neither property. The result is
  whatever \<open>parsed.code || parsed.authorization_code\<close> evaluates to.
\<close>

definition extractAuthCode :: "(string \<Rightarrow> json option) \<Rightarrow> string \<Rightarrow> json option" where
  "extractAuthCode parse responseBody =
     (let trimmed = trim responseBody in
      if trimmed = [] then None
      else
        (case parse trimmed of
           None \<Rightarrow> None
         | Some JNull \<Rightarrow> None
         | Some (JObj props) \<Rightarrow>
             if truthy_opt (map_of props ''code'') then map_of props ''code''
             else map_of props ''authorization_code''
         | Some other \<Rightarrow> None))"

text \<open>One pass through the body of the polling loop, up to the sleep.\<close>

datatype poll_step = Return json | Throw string | Continue

definition poll_once :: "(string \<Rightarrow> json option) \<Rightarrow> net_outcome \<Rightarrow> poll_step" where
  "poll_once parse r =
     (case r of
        Answer status body \<Rightarrow>
          if status = 200 then
            (let code = extractAuthCode parse body in
             if truthy_opt code then Return (the code) else Continue)
          else if status = 202 \<or> status = 204 \<or> status = 404 then Continue
          else if status = 410 then Throw ''Auth bridge session expired''
          else Continue
      | NetworkError message \<Rightarrow>
          if message = ''Auth bridge session expired'' then Throw message else Continue)"

definition timeout_message :: "int \<Rightarrow> string" where
  "timeout_message timeoutMs =
     ''Timed out waiting for auth code from bridge after '' @ show_int (timeoutMs div 1000)
       @ '' seconds.''"

text \<open>
  The \<open>while\<close> loop of \<open>waitForBridgeAuthCode\<close>. Every pass takes time: the request
  its latency (at most the 10 s of its abort signal), the sleep its timer delay.
\<close>

function bridge_poll_loop ::
  "world \<Rightarrow> string \<Rightarrow> int \<Rightarrow> int \<Rightarrow> int \<Rightarrow> (string + json) \<times> world" where
  "bridge_poll_loop w pollUrl pollIntervalMs timeoutMs startTime =
     (if now w - startTime < timeoutMs then
        (case poll_once (JSON_parse w) (fetch_result w pollUrl (Some 10000)) of
           Return code \<Rightarrow> (Inr code, after_fetch w pollUrl (Some 10000))
         | Throw message \<Rightarrow> (Inl message, after_fetch w pollUrl (Some 10000))
         | Continue \<Rightarrow>
             bridge_poll_loop (sleep (after_fetch w pollUrl (Some 10000)) pollIntervalMs)
               pollUrl pollIntervalMs timeoutMs startTime)
      else (Inl (timeout_message timeoutMs), w))"
  by pat_completeness auto
termination
  by (relation "measure (\<lambda>(w, pollUrl, pollIntervalMs, timeoutMs, startTime).
                   nat (timeoutMs - (now w - startTime)))")
     (auto simp: sleep_def after_fetch_def timer_delay_def Let_def)

declare bridge_poll_loop.simps [simp del]

text \<open>\<open>waitForBridgeAuthCode\<close>: the result is the code (\<open>Inr\<close>) or the message of the error
  thrown (\<open>Inl\<close>).\<close>

definition waitForBridgeAuthCode ::
  "world \<Rightarrow> string \<Rightarrow> int \<Rightarrow> int \<Rightarrow> (string + json) \<times> world" where
  "waitForBridgeAuthCode w pollUrl pollIntervalMs timeoutMs =
     bridge_poll_loop w pollUrl pollIntervalMs timeoutMs (now w)"

text \<open>The status of an answer; \<open>None\<close> for a failed request.\<close>

definition status_of :: "net_outcome \<Rightarrow> nat option" where
  "status_of r = (case r of Answer status body \<Rightarrow> Some status | NetworkError err \<Rightarrow> None)"

section \<open>The coordinator\<close>

record AuthCoordinatorOptions =
  callbackPort :: nat
  authTimeoutMs :: int
  authMode :: auth_mode
  authBridgePollUrl :: "string option"
  authBridgePollIntervalMs :: "int option"
  authSessionId :: "string option"
  authBridgeExitAfterAuthorizeUrl :: "bool option"

definition coordinateBridgeAuth ::
  "world \<Rightarrow> string \<Rightarrow> AuthCoordinatorOptions \<Rightarrow> (string + nat) \<times> world" where
  "coordinateBridgeAuth w urlHash opts =
     (if \<not> truthy_str (authBridgePollUrl opts)
        then (Inl ''authBridgePollUrl is required for bridge auth mode'', w)
      else
        (let sessionId = or_default (authSessionId opts)
                           (urlHash @ ''-'' @ show_nat (process_pid w))
         in case resolveBridgePollUrl w (the (authBridgePollUrl opts)) sessionId urlHash of
              Inl err \<Rightarrow> (Inl err, w)
            | Inr pollUrl \<Rightarrow>
                (let pollIntervalMs =
                       (case authBridgePollIntervalMs opts of
                          None \<Rightarrow> 2000
                        | Some ms \<Rightarrow> if ms = 0 then 2000 else ms)
                 in if authBridgeExitAfterAuthorizeUrl opts = Some True then
                      (case new_object w
                              \<lparr> server = None, waitForAuthCode = EmitOnlyWait,
                                skipBrowserAuth = False \<rparr>
                       of (r, w') \<Rightarrow> (Inr r, w'))
                    else
                      (case new_object w
                              \<lparr> server = None,
                                waitForAuthCode =
                                  BridgeWait pollUrl pollIntervalMs (authTimeoutMs opts),
                                skipBrowserAuth = False \<rparr>
                       of (r, w') \<Rightarrow> (Inr r, w')))))"

text \<open>
  \<open>createLazyAuthCoordinator\<close> returns a closure over its arguments and the variable
  \<open>authState\<close>, which holds \<open>null\<close> or the address of the state object.
\<close>

record coordinator =
  co_urlHash :: string
  co_options :: AuthCoordinatorOptions
  authState :: "nat option"

definition createLazyAuthCoordinator :: "string \<Rightarrow> AuthCoordinatorOptions \<Rightarrow> coordinator" where
  "createLazyAuthCoordinator urlHash opts =
     \<lparr> co_urlHash = urlHash, co_options = opts, authState = None \<rparr>"

text \<open>
  \<open>initializeAuth\<close>: the error thrown (\<open>Inl\<close>) or the address of the state returned
  (\<open>Inr\<close>), the coordinator and the world after the call; \<open>None\<close> when the call never
  returns.
\<close>

definition initializeAuth ::
  "coordinator \<Rightarrow> world \<Rightarrow> ((string + nat) \<times> coordinator \<times> world) option" where
  "initializeAuth c w =
     (case authState c of
        Some r \<Rightarrow> Some (Inr r, c, w)
      | None \<Rightarrow>
          if authMode (co_options c) = Bridge then
            (case coordinateBridgeAuth w (co_urlHash c) (co_options c) of
               (Inl err, w') \<Rightarrow> Some (Inl err, c, w')
             | (Inr r, w') \<Rightarrow> Some (Inr r, c\<lparr> authState := Some r \<rparr>, w'))
          else
            (case coordinateAuth w (co_urlHash c) (callbackPort (co_options c))
                    (authTimeoutMs (co_options c)) of
               None \<Rightarrow> None
             | Some (Inl err, w') \<Rightarrow> Some (Inl err, c, w')
             | Some (Inr r, w') \<Rightarrow> Some (Inr r, c\<lparr> authState := Some r \<rparr>, w')))"

text \<open>Calling the \<open>waitForAuthCode\<close> of a state: how the promise it returns settles.\<close>

definition call_waitForAuthCode :: "world \<Rightarrow> wait_for_auth_code \<Rightarrow> json promise \<times> world" where
  "call_waitForAuthCode w f =
     (case f of
        CallbackWait p t \<Rightarrow> (callback_wait w p t, w)
      | DummyWait \<Rightarrow> (dummyWaitForAuthCode, w)
      | BridgeWait pollUrl pollIntervalMs timeoutMs \<Rightarrow>
          (case waitForBridgeAuthCode w pollUrl pollIntervalMs timeoutMs of
             (Inl err, w') \<Rightarrow> (Rejects err, w')
           | (Inr code, w') \<Rightarrow> (Resolves code, w'))
      | EmitOnlyWait \<Rightarrow>
          (Rejects ''Bridge auth emit-only mode: authorization URL emitted.'', w))"


section \<open>Predicates of the claims\<close>

text \<open>A long-poll answer after which \<open>waitForAuthentication\<close> polls again: status 202, or
  a failed request.\<close>

definition retried :: "net_outcome \<Rightarrow> bool" where
  "retried r = (status_of r = Some 202 \<or> status_of r = None)"

text \<open>
  The long-poll of the instance on port \<open>p\<close> eventually returns 200: counting this
  process's requests from \<open>first\<close>, the next \<open>n\<close> are retried and the one after is
  answered with status 200.
\<close>

definition long_poll_succeeds :: "world \<Rightarrow> nat \<Rightarrow> nat \<Rightarrow> nat \<Rightarrow> bool" where
  "long_poll_succeeds w p first n =
     (list_all (\<lambda>k. retried (ev_outcome (net w (first + k) (wait_url p)))) [0..<n] \<and>
      status_of (ev_outcome (net w (first + n) (wait_url p))) = Some 200)"

text \<open>A property of a parsed value: \<open>undefined\<close> unless the value is an object.\<close>

definition field :: "json \<Rightarrow> string \<Rightarrow> json option" where
  "field v name = (case v of JObj props \<Rightarrow> map_of props name | _ \<Rightarrow> None)"

text \<open>A parsed value with no usable \<open>code\<close> and no usable \<open>authorization_code\<close>.\<close>

definition lacks_code :: "json \<Rightarrow> bool" where
  "lacks_code v = (\<not> truthy_opt (field v ''code'') \<and> \<not> truthy_opt (field v ''authorization_code''))"

text \<open>
  The keep-polling class of bridge responses, in the words of the specification:
  202, 204 or 404; a 200 whose body is empty, is not JSON, or lacks a code; any status
  other than 200, 202, 204, 404 and 410; a network error, which is any rejection but the
  loop's own \<open>Auth bridge session expired\<close>.
\<close>

definition keep_polling_class :: "(string \<Rightarrow> json option) \<Rightarrow> net_outcome \<Rightarrow> bool" where
  "keep_polling_class parse r =
     (case r of
        Answer status body \<Rightarrow>
          status \<in> {202, 204, 404} \<or>
          (status = 200 \<and>
             (trim body = [] \<or>
              (case parse (trim body) of None \<Rightarrow> True | Some v \<Rightarrow> lacks_code v))) \<or>
          status \<notin> {200, 202, 204, 404, 410}
      | NetworkError message \<Rightarrow> message \<noteq> ''Auth bridge session expired'')"

section \<open>Example worlds\<close>

text \<open>A lock record written a minute ago by process 4000, which serves port 3334.\<close>

definition test_lock :: LockfileData where
  "test_lock = \<lparr> pid = 4000, port = 3334, timestamp = 1699999940000 \<rparr>"

text \<open>The first two requests are answered 202, every later one 200.\<close>

definition adoption_net :: "nat \<Rightarrow> string \<Rightarrow> net_event" where
  "adoption_net k url =
     \<lparr> ev_outcome = (if k < 2 then Answer 202 [] else Answer 200 []), ev_latency = 5 \<rparr>"

text \<open>Every request gets the same outcome after 5 ms.\<close>

definition constant_net :: "net_outcome \<Rightarrow> nat \<Rightarrow> string \<Rightarrow> net_event" where
  "constant_net r k url = \<lparr> ev_outcome = r, ev_latency = 5 \<rparr>"

text \<open>The two bodies of the test suite, \<open>{"code":"auth-code-1"}\<close> and
  \<open>{"authorization_code":"auth-code-2"}\<close>, a body with both fields, the empty object,
  and a parser that knows the four.\<close>

definition quoted :: "string \<Rightarrow> string" where
  "quoted s = CHR 0x22 # s @ [CHR 0x22]"

definition code_body :: string where
  "code_body = ''{'' @ quoted ''code'' @ '':'' @ quoted ''auth-code-1'' @ ''}''"

definition authorization_code_body :: string where
  "authorization_code_body =
     ''{'' @ quoted ''authorization_code'' @ '':'' @ quoted ''auth-code-2'' @ ''}''"

definition both_body :: string where
  "both_body =
     ''{'' @ quoted ''code'' @ '':'' @ quoted ''auth-code-1'' @ '','' @
       quoted ''authorization_code'' @ '':'' @ quoted ''auth-code-2'' @ ''}''"

definition test_parse :: "string \<Rightarrow> json option" where
  "test_parse s =
     (if s = code_body then Some (JObj [(''code'', JStr ''auth-code-1'')])
      else if s = authorization_code_body
        then Some (JObj [(''authorization_code'', JStr ''auth-code-2'')])
      else if s = both_body
        then Some (JObj [(''code'', JStr ''auth-code-1''),
                         (''authorization_code'', JStr ''auth-code-2'')])
      else if s = ''{}'' then Some (JObj [])
      else None)"

definition test_world :: world where
  "test_world =
     \<lparr> platform = ''linux'',
       process_pid = 4242,
       now = 1700000000000,
       lockfiles = [''server-hash'' \<mapsto> test_lock],
       kill0 = (\<lambda>p. if p = 4000 then None else Some ''ESRCH''),
       net = adoption_net,
       fetched = 0,
       listen = (\<lambda>p. Some (if p = 0 then 49152 else p)),
       callback_wait = (\<lambda>p t. Rejects ''Authentication timed out''),
       JSON_parse = test_parse,
       encodeURIComponent = (\<lambda>s. s),
       URL_with_params =
         (\<lambda>u ps. Some (u @ ''?'' @ join ''&'' (map (\<lambda>kv. fst kv @ ''='' @ snd kv) ps))),
       heap = [],
       effects = [] \<rparr>"

text \<open>The coordinator options of the bridge tests.\<close>

definition bridge_options :: AuthCoordinatorOptions where
  "bridge_options =
     \<lparr> callbackPort = 3333, authTimeoutMs = 40, authMode = Bridge,
       authBridgePollUrl = Some ''https://bridge.example.com/poll'',
       authBridgePollIntervalMs = Some 1, authSessionId = None,
       authBridgeExitAfterAuthorizeUrl = None \<rparr>"

text \<open>The same coordinator in local mode, with a 30 s timeout.\<close>

definition local_options :: AuthCoordinatorOptions where
  "local_options =
     \<lparr> callbackPort = 3333, authTimeoutMs = 30000, authMode = Local,
       authBridgePollUrl = None, authBridgePollIntervalMs = None, authSessionId = None,
       authBridgeExitAfterAuthorizeUrl = None \<rparr>"

section \<open>Scope resolution: properties\<close>

lemma trim_Nil: "trim [] = []"
  by (simp add: trim_def)

lemma trim_default: "trim ''openid email profile'' = ''openid email profile''"
  by (simp add: trim_def is_ws_def)

lemma text_source_iff:
  "text_source s = (if truthy_str s \<and> length (trim (the s)) > 0 then s else None)"
  by (auto simp: text_source_def truthy_str_def trim_Nil split: option.splits)

lemma list_source_iff:
  "list_source xs = (if truthy_length xs then Some (join '' '' (the xs)) else None)"
  by (auto simp: list_source_def truthy_length_def split: option.splits)

lemma scope_first_present: "Some (getEffectiveScope p) = first_present (applicable_sources p)"
  by (simp add: getEffectiveScope_def applicable_sources_def text_source_iff list_source_iff)
     (auto simp: truthy_str_def split: option.splits)

lemma scope_first_non_empty:
  assumes "lists_not_blank p"
  shows "first_present (applicable_sources p) = first_non_empty (scope_sources p)"
  using assms
  by (auto simp: lists_not_blank_def applicable_sources_def scope_sources_def text_source_def
        list_source_def trim_default trim_Nil split: option.splits)

lemma clientMetadata_scope: "cm_scope (clientMetadata p) = getEffectiveScope p"
  by (simp add: clientMetadata_def)

lemmas scope_eval =
  clientMetadata_def getEffectiveScope_def NodeOAuthClientProvider_def test_provider_def
  defaultOptions_def registered_client_def or_default_def static_scope_def registered_scope_def
  resource_scopes_def server_scopes_def truthy_str_def truthy_length_def scope_sources_def
  applicable_sources_def text_source_def list_source_def trim_def is_ws_def

text \<open>
  C1, as the code has it. The scope in \<open>clientMetadata\<close> is the first source that applies,
  in the order static override, WWW-Authenticate scope, protected-resource scopes,
  registration scope, authorization-server scopes, default. A string source applies when
  it is non-empty after trimming; a metadata list applies when it has at least one
  element, and contributes its space-join whatever that string is. Whenever no list with
  elements joins to a blank string, this is the first source that is non-empty after
  trimming. An empty static scope gives the same result as an absent scope and as an
  absent override, and with every source absent the result is the default.
\<close>

theorem scope_priority:
  "Some (cm_scope (clientMetadata p)) = first_present (applicable_sources p) \<and>
   (lists_not_blank p \<longrightarrow>
      Some (cm_scope (clientMetadata p)) = first_non_empty (scope_sources p)) \<and>
   cm_scope (clientMetadata (p\<lparr> staticOAuthClientMetadata := Some (m\<lparr> sm_scope := Some [] \<rparr>) \<rparr>)) =
     cm_scope (clientMetadata (p\<lparr> staticOAuthClientMetadata := Some (m\<lparr> sm_scope := None \<rparr>) \<rparr>)) \<and>
   cm_scope (clientMetadata (p\<lparr> staticOAuthClientMetadata := Some (m\<lparr> sm_scope := None \<rparr>) \<rparr>)) =
     cm_scope (clientMetadata (p\<lparr> staticOAuthClientMetadata := None \<rparr>)) \<and>
   cm_scope (clientMetadata (p\<lparr> staticOAuthClientMetadata := None, wwwAuthenticateScope := None,
       protectedResourceMetadata := None, p_clientInfo := None,
       authorizationServerMetadata := None \<rparr>)) = ''openid email profile''"
proof -
  have a: "Some (cm_scope (clientMetadata p)) = first_present (applicable_sources p)"
    by (simp add: clientMetadata_scope scope_first_present)
  have b: "lists_not_blank p \<longrightarrow>
      Some (cm_scope (clientMetadata p)) = first_non_empty (scope_sources p)"
    using a scope_first_non_empty by simp
  have c: "getEffectiveScope (p\<lparr> staticOAuthClientMetadata := Some (m\<lparr> sm_scope := Some [] \<rparr>) \<rparr>) =
     getEffectiveScope (p\<lparr> staticOAuthClientMetadata := Some (m\<lparr> sm_scope := None \<rparr>) \<rparr>)"
    by (simp add: getEffectiveScope_def static_scope_def truthy_str_def registered_scope_def
          resource_scopes_def server_scopes_def)
  have d: "getEffectiveScope (p\<lparr> staticOAuthClientMetadata := Some (m\<lparr> sm_scope := None \<rparr>) \<rparr>) =
     getEffectiveScope (p\<lparr> staticOAuthClientMetadata := None \<rparr>)"
    by (simp add: getEffectiveScope_def static_scope_def truthy_str_def registered_scope_def
          resource_scopes_def server_scopes_def)
  have e: "getEffectiveScope (p\<lparr> staticOAuthClientMetadata := None, wwwAuthenticateScope := None,
       protectedResourceMetadata := None, p_clientInfo := None,
       authorizationServerMetadata := None \<rparr>) = ''openid email profile''"
    by (simp add: getEffectiveScope_def static_scope_def truthy_str_def registered_scope_def
          resource_scopes_def server_scopes_def truthy_length_def)
  show ?thesis using a b c d e by (simp add: clientMetadata_scope)
qed

text \<open>
  The test suite's case: the registration scope wins over the authorization server's
  advertised scopes.
\<close>

theorem scope_priority_witness:
  "lists_not_blank registered_scope_provider \<and>
   cm_scope (clientMetadata registered_scope_provider) = ''openid email profile custom:read'' \<and>
   first_non_empty (scope_sources registered_scope_provider) =
     Some ''openid email profile custom:read''"
proof -
  have nb: "lists_not_blank registered_scope_provider"
    by (simp add: lists_not_blank_def registered_scope_provider_def scope_eval)
  have fp: "first_present (applicable_sources registered_scope_provider) =
      Some ''openid email profile custom:read''"
    by (simp add: registered_scope_provider_def scope_eval)
  have a: "Some (cm_scope (clientMetadata registered_scope_provider)) =
      first_present (applicable_sources registered_scope_provider)"
    using scope_priority [of registered_scope_provider] by blast
  have b: "Some (cm_scope (clientMetadata registered_scope_provider)) =
      first_non_empty (scope_sources registered_scope_provider)"
    using scope_priority [of registered_scope_provider] nb by blast
  from a b nb fp show ?thesis by simp
qed

text \<open>
  C1 as stated fails where protected-resource metadata advertises the one scope \<open>''''\<close>:
  the list has an element, so its join, the empty string, is the result, although the
  registration scope \<open>read\<close> is the first source that is non-empty after trimming.
\<close>

theorem scope_priority_counterexample:
  "cm_scope (clientMetadata blank_resource_scope_provider) = [] \<and>
   first_non_empty (scope_sources blank_resource_scope_provider) = Some ''read''"
  by (simp add: blank_resource_scope_provider_def scope_eval)

section \<open>Client information and credential invalidation: properties\<close>

lemmas store_eval =
  readJsonFile_client_info_def writeJsonFile_def writeTextFile_def deleteConfigFile_def

lemmas provider_eval =
  static_info_provider_def static_client_def test_provider_def NodeOAuthClientProvider_def
  defaultOptions_def or_default_def truthy_str_def empty_store_def registered_client_def

lemmas file_names = client_file_def tokens_file_def verifier_file_def

text \<open>
  C6, as the code has it. Without a static override, \<open>saveClientInformation X\<close> followed
  by \<open>clientInformation\<close> returns \<open>X\<close>, for every \<open>X\<close> the schema accepts on read. With a
  static override \<open>S\<close>, \<open>clientInformation\<close> returns \<open>S\<close>, caches it, and leaves the store
  untouched (no read, no write), also right after a save. \<open>saveClientInformation\<close> itself
  has no test for the override: it writes the registration file in every case.
\<close>

theorem client_information_roundtrip:
  "(staticOAuthClientInfo p = None \<and> schema X \<longrightarrow>
      fst (clientInformation schema (saveClientInformation X (p, st))) = Some X) \<and>
   (staticOAuthClientInfo p = Some S \<longrightarrow>
      clientInformation schema (p, st) = (Some S, p\<lparr> p_clientInfo := Some S \<rparr>, st) \<and>
      fst (clientInformation schema (saveClientInformation X (p, st))) = Some S) \<and>
   snd (saveClientInformation X (p, st)) =
      writeJsonFile st (serverUrlHash p) ''client_info.json'' (ClientInfoFile X)"
  by (simp add: clientInformation_def saveClientInformation_def store_eval)

theorem client_information_roundtrip_witness:
  "fst (clientInformation (\<lambda>c. True)
      (saveClientInformation (registered_client ''read'') (test_provider defaultOptions, empty_store))) =
     Some (registered_client ''read'') \<and>
   clientInformation (\<lambda>c. True) (static_info_provider, empty_store) =
     (Some static_client, static_info_provider\<lparr> p_clientInfo := Some static_client \<rparr>, empty_store)"
proof -
  have n: "staticOAuthClientInfo (test_provider defaultOptions) = None"
    by (simp add: provider_eval)
  have s: "staticOAuthClientInfo static_info_provider = Some static_client"
    by (simp add: provider_eval)
  have a: "fst (clientInformation (\<lambda>c. True)
      (saveClientInformation (registered_client ''read'') (test_provider defaultOptions, empty_store))) =
     Some (registered_client ''read'')"
    using client_information_roundtrip
      [where p = "test_provider defaultOptions" and schema = "\<lambda>c. True"] n
    by blast
  have b: "clientInformation (\<lambda>c. True) (static_info_provider, empty_store) =
     (Some static_client, static_info_provider\<lparr> p_clientInfo := Some static_client \<rparr>, empty_store)"
    using client_information_roundtrip [where p = static_info_provider and S = static_client] s
    by blast
  from a b show ?thesis by simp
qed

text \<open>
  C6 as stated fails: with a static override configured, \<open>saveClientInformation\<close> still
  writes \<open>client_info.json\<close>, so persistence is not bypassed entirely.
\<close>

theorem client_information_roundtrip_counterexample:
  "staticOAuthClientInfo static_info_provider = Some static_client \<and>
   io_log (snd (saveClientInformation (registered_client ''read'')
                  (static_info_provider, empty_store))) =
     [WriteFile ''test-hash'' ''client_info.json''] \<and>
   files (snd (saveClientInformation (registered_client ''read'')
                 (static_info_provider, empty_store)))
     (''test-hash'', ''client_info.json'') = Some (ClientInfoFile (registered_client ''read''))"
  by (simp add: saveClientInformation_def store_eval provider_eval)

lemma invalidate_client:
  "invalidateCredentials ''client'' (p, st) =
     (Inr (), p\<lparr> p_clientInfo := None \<rparr>,
      st\<lparr> files := (files st)(client_file p := None),
          io_log := io_log st @ [DeleteFile (serverUrlHash p) ''client_info.json''] \<rparr>)"
  by (simp add: invalidateCredentials_def deleteConfigFile_def file_names)

lemma invalidate_tokens:
  "invalidateCredentials ''tokens'' (p, st) =
     (Inr (), p,
      st\<lparr> files := (files st)(tokens_file p := None),
          io_log := io_log st @ [DeleteFile (serverUrlHash p) ''tokens.json''] \<rparr>)"
  by (simp add: invalidateCredentials_def deleteConfigFile_def file_names)

lemma invalidate_verifier:
  "invalidateCredentials ''verifier'' (p, st) =
     (Inr (), p,
      st\<lparr> files := (files st)(verifier_file p := None),
          io_log := io_log st @ [DeleteFile (serverUrlHash p) ''code_verifier.txt''] \<rparr>)"
  by (simp add: invalidateCredentials_def deleteConfigFile_def file_names)

lemma invalidate_all:
  "invalidateCredentials ''all'' (p, st) =
     (Inr (), p\<lparr> p_clientInfo := None \<rparr>,
      st\<lparr> files := (files st)(client_file p := None, tokens_file p := None,
                                verifier_file p := None),
          io_log := io_log st @ [DeleteFile (serverUrlHash p) ''client_info.json'',
                                 DeleteFile (serverUrlHash p) ''tokens.json'',
                                 DeleteFile (serverUrlHash p) ''code_verifier.txt''] \<rparr>)"
  by (simp add: invalidateCredentials_def deleteConfigFile_def file_names)

lemma invalidate_other:
  "scope \<notin> {''all'', ''client'', ''tokens'', ''verifier''} \<Longrightarrow>
   invalidateCredentials scope (p, st) = (Inl (''Unknown credential scope: '' @ scope), p, st)"
  by (simp add: invalidateCredentials_def)

lemma default_after_client_invalidation:
  assumes h: "no_other_scope_source p"
  shows "cm_scope (clientMetadata (fst (snd (invalidateCredentials ''client'' (p, st))))) =
           ''openid email profile''"
proof -
  let ?q = "p\<lparr> p_clientInfo := None \<rparr>"
  have "Some (getEffectiveScope ?q) = first_present (applicable_sources ?q)"
    by (rule scope_first_present)
  also have "\<dots> = Some ''openid email profile''"
    using h by (simp add: no_other_scope_source_def applicable_sources_def static_scope_def
        resource_scopes_def server_scopes_def registered_scope_def text_source_def)
  finally show ?thesis by (simp add: invalidate_client clientMetadata_scope)
qed

text \<open>
  C7. Each of the four arguments completes normally and removes exactly its files from
  the store (every other key keeps its content, and the access log gains exactly those
  deletions); \<open>client\<close> and \<open>all\<close> also clear the cached registration, \<open>tokens\<close> and
  \<open>verifier\<close> leave the provider as it was. After \<open>client\<close>, a provider with no other
  scope source reports the default scope. Any other argument raises
  \<open>Unknown credential scope\<close> and changes nothing.
\<close>

theorem invalidate_credentials_frame:
  "invalidateCredentials ''client'' (p, st) =
     (Inr (), p\<lparr> p_clientInfo := None \<rparr>,
      st\<lparr> files := (files st)(client_file p := None),
          io_log := io_log st @ [DeleteFile (serverUrlHash p) ''client_info.json''] \<rparr>) \<and>
   invalidateCredentials ''tokens'' (p, st) =
     (Inr (), p,
      st\<lparr> files := (files st)(tokens_file p := None),
          io_log := io_log st @ [DeleteFile (serverUrlHash p) ''tokens.json''] \<rparr>) \<and>
   invalidateCredentials ''verifier'' (p, st) =
     (Inr (), p,
      st\<lparr> files := (files st)(verifier_file p := None),
          io_log := io_log st @ [DeleteFile (serverUrlHash p) ''code_verifier.txt''] \<rparr>) \<and>
   invalidateCredentials ''all'' (p, st) =
     (Inr (), p\<lparr> p_clientInfo := None \<rparr>,
      st\<lparr> files := (files st)(client_file p := None, tokens_file p := None,
                                verifier_file p := None),
          io_log := io_log st @ [DeleteFile (serverUrlHash p) ''client_info.json'',
                                 DeleteFile (serverUrlHash p) ''tokens.json'',
                                 DeleteFile (serverUrlHash p) ''code_verifier.txt''] \<rparr>) \<and>
   (no_other_scope_source p \<longrightarrow>
      cm_scope (clientMetadata (fst (snd (invalidateCredentials ''client'' (p, st))))) =
        ''openid email profile'') \<and>
   (scope \<notin> {''all'', ''client'', ''tokens'', ''verifier''} \<longrightarrow>
      invalidateCredentials scope (p, st) = (Inl (''Unknown credential scope: '' @ scope), p, st))"
  using invalidate_client invalidate_tokens invalidate_verifier invalidate_all
    invalidate_other default_after_client_invalidation
  by blast

lemma saved_credentials_eval:
  "saved_credentials =
     ((test_provider defaultOptions)
        \<lparr> p_clientInfo := Some (registered_client ''extracted custom scopes'') \<rparr>,
      \<lparr> files = [(''test-hash'', ''client_info.json'') \<mapsto>
                   ClientInfoFile (registered_client ''extracted custom scopes''),
                 (''test-hash'', ''tokens.json'') \<mapsto>
                   TokensFile \<lparr> access_token = ''token-1'', refresh_token = None,
                                expires_in = Some 3600 \<rparr>,
                 (''test-hash'', ''code_verifier.txt'') \<mapsto> TextFile ''verifier-1''],
        io_log = [WriteFile ''test-hash'' ''client_info.json'',
                  WriteFile ''test-hash'' ''tokens.json'',
                  WriteFile ''test-hash'' ''code_verifier.txt''] \<rparr>)"
  by (simp add: saved_credentials_def saveCodeVerifier_def saveTokens_def
        saveClientInformation_def store_eval provider_eval)

text \<open>
  The test suite's scenario: the cached registration scope is in force, and after
  \<open>invalidateCredentials('client')\<close> the default is; \<open>tokens\<close> keeps the registration
  file; an unknown argument raises.
\<close>

theorem invalidate_credentials_frame_witness:
  "cm_scope (clientMetadata (fst saved_credentials)) = ''extracted custom scopes'' \<and>
   no_other_scope_source (fst saved_credentials) \<and>
   cm_scope (clientMetadata (fst (snd (invalidateCredentials ''client'' saved_credentials)))) =
     ''openid email profile'' \<and>
   files (snd (snd (invalidateCredentials ''client'' saved_credentials)))
     (''test-hash'', ''client_info.json'') = None \<and>
   files (snd (snd (invalidateCredentials ''tokens'' saved_credentials)))
     (''test-hash'', ''client_info.json'') =
     Some (ClientInfoFile (registered_client ''extracted custom scopes'')) \<and>
   ''sessions'' \<notin> {''all'', ''client'', ''tokens'', ''verifier''} \<and>
   fst (invalidateCredentials ''sessions'' saved_credentials) =
     Inl ''Unknown credential scope: sessions''"
proof -
  define p where "p = fst saved_credentials"
  define st where "st = snd saved_credentials"
  have ps: "saved_credentials = (p, st)"
    by (simp add: p_def st_def)
  have p: "p = (test_provider defaultOptions)
        \<lparr> p_clientInfo := Some (registered_client ''extracted custom scopes'') \<rparr>"
    by (simp add: p_def saved_credentials_eval)
  have st: "files st (''test-hash'', ''client_info.json'') =
      Some (ClientInfoFile (registered_client ''extracted custom scopes''))"
    by (simp add: st_def saved_credentials_eval)
  have h: "serverUrlHash p = ''test-hash''"
    by (simp add: p provider_eval)
  have before: "cm_scope (clientMetadata p) = ''extracted custom scopes''"
    by (simp add: p scope_eval)
  have none: "no_other_scope_source p"
    by (simp add: p no_other_scope_source_def scope_eval)
  have other: "''sessions'' \<notin> {''all'', ''client'', ''tokens'', ''verifier''}"
    by simp
  note frame = invalidate_credentials_frame [of p st "''sessions''"]
  have a: "cm_scope (clientMetadata (fst (snd (invalidateCredentials ''client'' (p, st))))) =
      ''openid email profile''"
    using frame none by blast
  have b: "files (snd (snd (invalidateCredentials ''client'' (p, st))))
      (''test-hash'', ''client_info.json'') = None"
    using frame h by (simp add: file_names)
  have c: "files (snd (snd (invalidateCredentials ''tokens'' (p, st))))
      (''test-hash'', ''client_info.json'') =
      Some (ClientInfoFile (registered_client ''extracted custom scopes''))"
    using frame h st by (simp add: file_names)
  have d: "fst (invalidateCredentials ''sessions'' (p, st)) =
      Inl ''Unknown credential scope: sessions''"
    using frame other by simp
  from before none a b c d other show ?thesis
    by (simp only: ps fst_conv) simp
qed

section \<open>Lock validity, adoption and the primary path: properties\<close>

lemma perform_fields [simp]:
  "net (perform e w) = net w" "fetched (perform e w) = fetched w" "now (perform e w) = now w"
  "kill0 (perform e w) = kill0 w" "lockfiles (perform e w) = lockfiles w"
  "platform (perform e w) = platform w" "process_pid (perform e w) = process_pid w"
  "listen (perform e w) = listen w" "heap (perform e w) = heap w"
  "JSON_parse (perform e w) = JSON_parse w"
  "effects (perform e w) = effects w @ [e]"
  by (simp_all add: perform_def)

lemma after_fetch_fields [simp]:
  "net (after_fetch w u a) = net w" "fetched (after_fetch w u a) = Suc (fetched w)"
  "kill0 (after_fetch w u a) = kill0 w" "lockfiles (after_fetch w u a) = lockfiles w"
  "platform (after_fetch w u a) = platform w" "process_pid (after_fetch w u a) = process_pid w"
  "listen (after_fetch w u a) = listen w" "heap (after_fetch w u a) = heap w"
  "JSON_parse (after_fetch w u a) = JSON_parse w"
  "effects (after_fetch w u a) = effects w @ [Fetch u]"
  by (simp_all add: after_fetch_def Let_def)

lemma sleep_fields [simp]:
  "net (sleep w ms) = net w" "fetched (sleep w ms) = fetched w"
  "kill0 (sleep w ms) = kill0 w" "lockfiles (sleep w ms) = lockfiles w"
  "platform (sleep w ms) = platform w" "process_pid (sleep w ms) = process_pid w"
  "listen (sleep w ms) = listen w" "heap (sleep w ms) = heap w"
  "JSON_parse (sleep w ms) = JSON_parse w"
  "effects (sleep w ms) = effects w @ [Sleep ms]"
  by (simp_all add: sleep_def)

lemma fetch_result_perform [simp]: "fetch_result (perform e w) u a = fetch_result w u a"
  by (simp add: fetch_result_def)

lemma isLockValid_result:
  "fst (isLockValid w l) \<longleftrightarrow>
     now w - timestamp l \<le> 1800000 \<and> kill0 w (pid l) = None \<and>
     ev_latency (net w (fetched w) (probe_url (port l))) < 1000 \<and>
     status_of (ev_outcome (net w (fetched w) (probe_url (port l)))) \<in> {Some 200, Some 202}"
  by (auto simp: isLockValid_def isPidRunning_def MAX_LOCK_AGE_def status_of_def
        fetch_result_def Let_def split: option.splits net_outcome.splits)

lemma isLockValid_effects:
  "effects (snd (isLockValid w l)) =
     effects w @
       (if now w - timestamp l > 1800000 then []
        else if kill0 w (pid l) \<noteq> None then [Kill (pid l)]
        else [Kill (pid l), Fetch (probe_url (port l))])"
  by (auto simp: isLockValid_def isPidRunning_def MAX_LOCK_AGE_def
        split: option.splits net_outcome.splits)

lemma isLockValid_old:
  "now w - timestamp l > 1800000 \<Longrightarrow> isLockValid w l = (False, w)"
  by (simp add: isLockValid_def MAX_LOCK_AGE_def)

lemma isLockValid_after:
  "fst (isLockValid w l) \<Longrightarrow>
   net (snd (isLockValid w l)) = net w \<and> fetched (snd (isLockValid w l)) = Suc (fetched w)"
  by (auto simp: isLockValid_def isPidRunning_def split: option.splits net_outcome.splits if_splits)

text \<open>
  C2. \<open>isLockValid\<close> returns true exactly when the record is at most 1 800 000 ms old,
  the signal-0 check of its pid does not throw, and the probe of
  \<open>http://127.0.0.1:{port}/wait-for-auth?poll=false\<close> is answered before the 1000 ms abort
  with status 200 or 202. The checks run in this order and stop at the first that fails:
  an old record costs no effect at all, a dead owner only the signal. In particular a
  record older than 30 minutes is invalid whatever the process and the network would say.
\<close>

theorem lock_validity:
  "(fst (isLockValid w l) \<longleftrightarrow>
      now w - timestamp l \<le> 1800000 \<and> kill0 w (pid l) = None \<and>
      ev_latency (net w (fetched w)
        (''http://127.0.0.1:'' @ show_nat (port l) @ ''/wait-for-auth?poll=false'')) < 1000 \<and>
      status_of (ev_outcome (net w (fetched w)
        (''http://127.0.0.1:'' @ show_nat (port l) @ ''/wait-for-auth?poll=false'')))
        \<in> {Some 200, Some 202}) \<and>
   effects (snd (isLockValid w l)) =
     effects w @
       (if now w - timestamp l > 1800000 then []
        else if kill0 w (pid l) \<noteq> None then [Kill (pid l)]
        else [Kill (pid l),
              Fetch (''http://127.0.0.1:'' @ show_nat (port l) @ ''/wait-for-auth?poll=false'')]) \<and>
   (now w - timestamp l > 1800000 \<longrightarrow> isLockValid w l = (False, w))"
  using isLockValid_result [of w l] isLockValid_effects [of w l] isLockValid_old [where w = w and l = l]
  unfolding probe_url_def by blast

lemma show_nat_3334: "show_nat 3334 = ''3334''"
  by code_simp

lemmas world_eval = test_world_def test_lock_def adoption_net_def

text \<open>
  The record of the example world is a minute old, its owner is alive and the probe is
  answered 202 after 5 ms: valid. The same record in a world whose clock is an hour
  later: invalid, with no signal sent and no request made.
\<close>

theorem lock_validity_witness:
  "fst (isLockValid test_world test_lock) \<and>
   effects (snd (isLockValid test_world test_lock)) =
     [Kill 4000, Fetch ''http://127.0.0.1:3334/wait-for-auth?poll=false''] \<and>
   now (test_world\<lparr> now := 1700003600000 \<rparr>) - timestamp test_lock > 1800000 \<and>
   isLockValid (test_world\<lparr> now := 1700003600000 \<rparr>) test_lock =
     (False, test_world\<lparr> now := 1700003600000 \<rparr>)"
proof -
  have v: "fst (isLockValid test_world test_lock)"
    using lock_validity [of test_world test_lock]
    by (simp add: world_eval status_of_def)
  have e: "effects (snd (isLockValid test_world test_lock)) =
     [Kill 4000, Fetch ''http://127.0.0.1:3334/wait-for-auth?poll=false'']"
    using lock_validity [of test_world test_lock]
    by (simp add: world_eval show_nat_3334)
  have old: "now (test_world\<lparr> now := 1700003600000 \<rparr>) - timestamp test_lock > 1800000"
    by (simp add: world_eval)
  have i: "isLockValid (test_world\<lparr> now := 1700003600000 \<rparr>) test_lock =
     (False, test_world\<lparr> now := 1700003600000 \<rparr>)"
    using lock_validity [of "test_world\<lparr> now := 1700003600000 \<rparr>" test_lock] old by blast
  from v e old i show ?thesis by blast
qed

lemma long_poll_step:
  assumes "long_poll_succeeds w p (fetched w) (Suc n)"
  shows "\<exists>ms. waitForAuthentication w p =
            waitForAuthentication (sleep (after_fetch w (wait_url p) None) ms) p \<and>
          long_poll_succeeds (sleep (after_fetch w (wait_url p) None) ms) p
            (fetched (sleep (after_fetch w (wait_url p) None) ms)) n"
proof -
  have all: "\<forall>k<Suc n. retried (ev_outcome (net w (fetched w + k) (wait_url p)))"
    using assms by (simp add: long_poll_succeeds_def list_all_iff del: upt_Suc)
  have last: "status_of (ev_outcome (net w (fetched w + Suc n) (wait_url p))) = Some 200"
    using assms by (simp add: long_poll_succeeds_def)
  from all have first: "retried (ev_outcome (net w (fetched w) (wait_url p)))"
    by (metis add.right_neutral zero_less_Suc)
  have rest: "\<forall>k<n. retried (ev_outcome (net w (fetched w + Suc k) (wait_url p)))"
  proof (intro allI impI)
    fix k assume "k < n"
    then have "Suc k < Suc n" by simp
    with all show "retried (ev_outcome (net w (fetched w + Suc k) (wait_url p)))" by blast
  qed
  have shift: "\<And>ms. long_poll_succeeds (sleep (after_fetch w (wait_url p) None) ms) p
            (fetched (sleep (after_fetch w (wait_url p) None) ms)) n"
    using rest last by (simp add: long_poll_succeeds_def list_all_iff)
  from first show ?thesis
  proof (cases "ev_outcome (net w (fetched w) (wait_url p))")
    case (Answer s b)
    with first have "s = 202" by (simp add: retried_def status_of_def)
    with Answer have "waitForAuthentication w p =
        waitForAuthentication (sleep (after_fetch w (wait_url p) None) 1000) p"
      by (subst waitForAuthentication.simps) (simp add: fetch_result_def)
    with shift show ?thesis by blast
  next
    case (NetworkError e)
    then have "waitForAuthentication w p =
        waitForAuthentication (sleep (after_fetch w (wait_url p) None) 2000) p"
      by (subst waitForAuthentication.simps) (simp add: fetch_result_def)
    with shift show ?thesis by blast
  qed
qed

text \<open>When the long-poll eventually returns 200, \<open>waitForAuthentication\<close> returns, and
  returns true.\<close>

lemma long_poll_returns:
  "long_poll_succeeds w p (fetched w) n \<Longrightarrow> \<exists>w'. waitForAuthentication w p = Some (True, w')"
proof (induction n arbitrary: w)
  case 0
  then obtain b where "ev_outcome (net w (fetched w) (wait_url p)) = Answer 200 b"
    by (auto simp: long_poll_succeeds_def status_of_def split: net_outcome.splits)
  then show ?case
    by (subst waitForAuthentication.simps) (simp add: fetch_result_def)
next
  case (Suc n)
  from long_poll_step [OF Suc.prems] Suc.IH show ?case by metis
qed

lemma dummy_wait_pending: "fst (call_waitForAuthCode v DummyWait) = Pending"
  by (simp add: call_waitForAuthCode_def dummyWaitForAuthCode_def new_Promise_def)

text \<open>
  C3. Off Windows, with a valid lock record for the server, whenever the long-poll of the
  owning instance eventually returns 200 (after any number of 202 answers and failed
  requests), \<open>coordinateAuth\<close> returns a state with \<open>skipBrowserAuth = true\<close> whose
  \<open>waitForAuthCode\<close> is the dummy one: the promise it returns is built by an executor that
  calls neither \<open>resolve\<close> nor \<open>reject\<close>, so it never settles.
\<close>

theorem adoption_never_settles:
  assumes "platform w \<noteq> ''win32''"
    and "lockfiles w h = Some l"
    and "fst (isLockValid w l)"
    and "long_poll_succeeds w (port l) (Suc (fetched w)) n"
  shows "\<exists>r w'. coordinateAuth w h p t = Some (Inr r, w') \<and> r < length (heap w') \<and>
           skipBrowserAuth (heap w' ! r) \<and>
           waitForAuthCode (heap w' ! r) = DummyWait \<and>
           (\<forall>v. fst (call_waitForAuthCode v (waitForAuthCode (heap w' ! r))) = Pending)"
proof -
  let ?w1 = "perform (CheckLockfile h) w"
  define w2 where "w2 = snd (isLockValid ?w1 l)"
  have valid: "fst (isLockValid ?w1 l)"
    using assms(3) by (simp add: isLockValid_result)
  have w2: "isLockValid ?w1 l = (True, w2)"
    using valid by (simp add: w2_def prod_eq_iff)
  have after: "net w2 = net w \<and> fetched w2 = Suc (fetched w)"
    using isLockValid_after [OF valid] by (simp add: w2_def)
  have "long_poll_succeeds w2 (port l) (fetched w2) n"
    using assms(4) after by (simp add: long_poll_succeeds_def)
  then obtain w3 where w3: "waitForAuthentication w2 (port l) = Some (True, w3)"
    using long_poll_returns by blast
  have "coordinateAuth w h p t =
      Some (Inr (length (heap w3)),
            (perform StartDummyServer w3)
              \<lparr> heap := heap w3 @ [\<lparr> server = Some DummyServer, waitForAuthCode = DummyWait,
                                     skipBrowserAuth = True \<rparr>] \<rparr>)"
    using assms(1,2) w2 w3
    by (simp add: coordinateAuth_def existing_lock_def checkLockfile_def new_object_def)
  then show ?thesis
    by (simp add: dummy_wait_pending)
qed

text \<open>
  In the example world the lock of the server is valid, the first long-poll is answered
  202 and the second 200: the process adopts.
\<close>

theorem adoption_never_settles_witness:
  "platform test_world \<noteq> ''win32'' \<and>
   lockfiles test_world ''server-hash'' = Some test_lock \<and>
   fst (isLockValid test_world test_lock) \<and>
   long_poll_succeeds test_world (port test_lock) (Suc (fetched test_world)) 1 \<and>
   (\<exists>r w'. coordinateAuth test_world ''server-hash'' 3333 30000 = Some (Inr r, w') \<and>
      skipBrowserAuth (heap w' ! r) \<and>
      fst (call_waitForAuthCode w' (waitForAuthCode (heap w' ! r))) = Pending)"
proof -
  have a: "platform test_world \<noteq> ''win32''"
    by (simp add: test_world_def)
  have b: "lockfiles test_world ''server-hash'' = Some test_lock"
    by (simp add: test_world_def)
  have c: "fst (isLockValid test_world test_lock)"
    by (simp add: isLockValid_result world_eval status_of_def)
  have d: "long_poll_succeeds test_world (port test_lock) (Suc (fetched test_world)) 1"
    by (simp add: long_poll_succeeds_def retried_def status_of_def world_eval)
  from adoption_never_settles [OF a b c d, of 3333 30000] a b c d show ?thesis
    by blast
qed

lemma become_primary_effects:
  "effects (snd (become_primary w h p t)) =
     effects w @
       (case listen w p of
          None \<Rightarrow> [StartCallbackServer p]
        | Some a \<Rightarrow> [StartCallbackServer p, CreateLockfile h (process_pid w) a,
                     OnceExit h, OnceSigint h])"
  by (simp add: become_primary_def setupOAuthCallbackServerWithLongPoll_def createLockfile_def
        new_object_def Let_def split: option.splits)

lemma become_primary_result:
  "listen w p = Some a \<Longrightarrow>
   fst (become_primary w h p t) = Inr (length (heap w)) \<and>
   heap (snd (become_primary w h p t)) =
     heap w @ [\<lparr> server = Some (CallbackServer a), waitForAuthCode = CallbackWait a t,
                 skipBrowserAuth = False \<rparr>] \<and>
   lockfiles (snd (become_primary w h p t)) =
     (lockfiles w)(h \<mapsto> \<lparr> pid = process_pid w, port = a, timestamp = now w \<rparr>)"
  by (simp add: become_primary_def setupOAuthCallbackServerWithLongPoll_def createLockfile_def
        new_object_def Let_def perform_def)

lemma become_primary_no_address:
  "listen w p = None \<Longrightarrow>
   fst (become_primary w h p t) = Inl ''Failed to get server address after listening event'' \<and>
   heap (snd (become_primary w h p t)) = heap w \<and>
   lockfiles (snd (become_primary w h p t)) = lockfiles w"
  by (simp add: become_primary_def setupOAuthCallbackServerWithLongPoll_def)

lemma win32_primary:
  "platform w = ''win32'' \<Longrightarrow> coordinateAuth w h p t = Some (become_primary w h p t)"
  by (simp add: coordinateAuth_def existing_lock_def)

text \<open>
  C9. On \<open>win32\<close>, \<open>coordinateAuth\<close> goes straight to the primary path, whatever lock
  record exists: its effects are the start of the callback server and, once the server
  reports its address, the creation of its own lock record and the two cleanup handlers.
  No lock record is read, no process is signalled, no request is sent, and the state
  returned is the primary one (\<open>skipBrowserAuth = false\<close>, the callback server's
  \<open>waitForAuthCode\<close>). Without an address the call throws before it creates the record.
\<close>

theorem win32_always_primary:
  assumes "platform w = ''win32''"
  shows "\<exists>res w'. coordinateAuth w h p t = Some (res, w') \<and>
           effects w' = effects w @
             (case listen w p of
                None \<Rightarrow> [StartCallbackServer p]
              | Some a \<Rightarrow> [StartCallbackServer p, CreateLockfile h (process_pid w) a,
                           OnceExit h, OnceSigint h]) \<and>
           (case listen w p of
              None \<Rightarrow>
                res = Inl ''Failed to get server address after listening event'' \<and>
                heap w' = heap w \<and> lockfiles w' = lockfiles w
            | Some a \<Rightarrow>
                res = Inr (length (heap w)) \<and>
                heap w' = heap w @ [\<lparr> server = Some (CallbackServer a),
                                        waitForAuthCode = CallbackWait a t,
                                        skipBrowserAuth = False \<rparr>] \<and>
                lockfiles w' =
                  (lockfiles w)(h \<mapsto> \<lparr> pid = process_pid w, port = a, timestamp = now w \<rparr>))"
proof -
  have c: "coordinateAuth w h p t =
      Some (fst (become_primary w h p t), snd (become_primary w h p t))"
    using assms by (simp add: win32_primary)
  show ?thesis
  proof (cases "listen w p")
    case None
    with c become_primary_effects [of w h p t] become_primary_no_address [of w p h t]
    show ?thesis by simp
  next
    case (Some a)
    with c become_primary_effects [of w h p t] become_primary_result [of w p a h t]
    show ?thesis by simp
  qed
qed

text \<open>
  The example world on Windows: the lock record of the server is valid, and the
  process becomes primary all the same, replacing the record with its own.
\<close>

theorem win32_always_primary_witness:
  "platform (test_world\<lparr> platform := ''win32'' \<rparr>) = ''win32'' \<and>
   lockfiles (test_world\<lparr> platform := ''win32'' \<rparr>) ''server-hash'' = Some test_lock \<and>
   fst (isLockValid (test_world\<lparr> platform := ''win32'' \<rparr>) test_lock) \<and>
   (\<exists>w'. coordinateAuth (test_world\<lparr> platform := ''win32'' \<rparr>) ''server-hash'' 3333 30000 =
            Some (Inr 0, w') \<and>
      effects w' = [StartCallbackServer 3333, CreateLockfile ''server-hash'' 4242 3333,
                    OnceExit ''server-hash'', OnceSigint ''server-hash''] \<and>
      \<not> skipBrowserAuth (heap w' ! 0) \<and>
      lockfiles w' ''server-hash'' =
        Some \<lparr> pid = 4242, port = 3333, timestamp = 1700000000000 \<rparr>)"
proof -
  let ?w = "test_world\<lparr> platform := ''win32'' \<rparr>"
  have a: "platform ?w = ''win32''"
    by simp
  have b: "lockfiles ?w ''server-hash'' = Some test_lock"
    by (simp add: test_world_def)
  have v: "fst (isLockValid ?w test_lock)"
    by (simp add: isLockValid_result world_eval status_of_def)
  have l: "listen test_world 3333 = Some 3333" "heap test_world = []" "effects test_world = []"
    "process_pid test_world = 4242" "now test_world = 1700000000000"
    by (simp_all add: test_world_def)
  from win32_always_primary [OF a, of "''server-hash''" 3333 30000]
  obtain res w' where
    "coordinateAuth ?w ''server-hash'' 3333 30000 = Some (res, w')"
    "effects w' = effects ?w @
             (case listen ?w 3333 of
                None \<Rightarrow> [StartCallbackServer 3333]
              | Some a \<Rightarrow> [StartCallbackServer 3333, CreateLockfile ''server-hash'' (process_pid ?w) a,
                           OnceExit ''server-hash'', OnceSigint ''server-hash''])"
    "(case listen ?w 3333 of
              None \<Rightarrow>
                res = Inl ''Failed to get server address after listening event'' \<and>
                heap w' = heap ?w \<and> lockfiles w' = lockfiles ?w
            | Some a \<Rightarrow>
                res = Inr (length (heap ?w)) \<and>
                heap w' = heap ?w @ [\<lparr> server = Some (CallbackServer a),
                                        waitForAuthCode = CallbackWait a 30000,
                                        skipBrowserAuth = False \<rparr>] \<and>
                lockfiles w' =
                  (lockfiles ?w)(''server-hash'' \<mapsto>
                     \<lparr> pid = process_pid ?w, port = a, timestamp = now ?w \<rparr>))"
    by blast
  then have "coordinateAuth ?w ''server-hash'' 3333 30000 = Some (Inr 0, w') \<and>
      effects w' = [StartCallbackServer 3333, CreateLockfile ''server-hash'' 4242 3333,
                    OnceExit ''server-hash'', OnceSigint ''server-hash''] \<and>
      \<not> skipBrowserAuth (heap w' ! 0) \<and>
      lockfiles w' ''server-hash'' =
        Some \<lparr> pid = 4242, port = 3333, timestamp = 1700000000000 \<rparr>"
    by (simp add: l)
  with a b v show ?thesis by blast
qed

section \<open>The lazy coordinator: properties\<close>

lemma coordinateBridgeAuth_address:
  assumes "coordinateBridgeAuth w h opts = (Inr r, w')"
  shows "r = length (heap w) \<and> length (heap w') = Suc (length (heap w)) \<and>
         \<not> skipBrowserAuth (heap w' ! r)"
  using assms
  by (auto simp: coordinateBridgeAuth_def new_object_def Let_def
        split: if_splits sum.splits)

lemma become_primary_address:
  assumes "become_primary w h p t = (Inr r, w')"
  shows "r < length (heap w')"
  using assms
  by (auto simp: become_primary_def setupOAuthCallbackServerWithLongPoll_def new_object_def
        Let_def split: option.splits)

lemma coordinateAuth_address:
  assumes "coordinateAuth w h p t = Some (Inr r, w')"
  shows "r < length (heap w')"
  using assms
  by (auto simp: coordinateAuth_def new_object_def dest: become_primary_address
        split: prod.splits option.splits bool.splits if_splits)

text \<open>
  C8. Take a coordinator as \<open>createLazyAuthCoordinator\<close> returns it, and a first call of
  \<open>initializeAuth\<close> that returns a state.
  \<^item> That call ran the strategy its \<open>authMode\<close> selects, \<open>coordinateBridgeAuth\<close> in bridge
    mode and \<open>coordinateAuth\<close> otherwise, on the world of the call: the address returned
    and the world left are the strategy's own, and the address is that of a state object
    on the heap.
  \<^item> The coordinator afterwards differs only in that \<open>authState\<close> holds this address.
  \<^item> Every later call, in whatever world, returns the same address, that is the
    identical object, and leaves the coordinator and the world as they are: no strategy
    is selected again, no effect is performed and no object is created.
\<close>

theorem initializeAuth_memoized:
  assumes "initializeAuth (createLazyAuthCoordinator h opts) w = Some (Inr r, c', w')"
  shows "(if authMode opts = Bridge
            then coordinateBridgeAuth w h opts = (Inr r, w')
            else coordinateAuth w h (callbackPort opts) (authTimeoutMs opts) =
                   Some (Inr r, w')) \<and>
         r < length (heap w') \<and>
         c' = (createLazyAuthCoordinator h opts)\<lparr> authState := Some r \<rparr> \<and>
         (\<forall>v. initializeAuth c' v = Some (Inr r, c', v))"
proof -
  let ?c = "createLazyAuthCoordinator h opts"
  have fresh: "authState ?c = None" "co_urlHash ?c = h" "co_options ?c = opts"
    by (simp_all add: createLazyAuthCoordinator_def)
  have run: "(if authMode opts = Bridge
            then coordinateBridgeAuth w h opts = (Inr r, w')
            else coordinateAuth w h (callbackPort opts) (authTimeoutMs opts) =
                   Some (Inr r, w')) \<and>
         c' = ?c\<lparr> authState := Some r \<rparr>"
    using assms
    by (auto simp: initializeAuth_def fresh split: if_splits prod.splits sum.splits option.splits)
  have addr: "r < length (heap w')"
  proof (cases "authMode opts = Bridge")
    case True
    with run have "coordinateBridgeAuth w h opts = (Inr r, w')" by simp
    from coordinateBridgeAuth_address [OF this] show ?thesis by simp
  next
    case False
    with run have "coordinateAuth w h (callbackPort opts) (authTimeoutMs opts) = Some (Inr r, w')"
      by simp
    then show ?thesis by (rule coordinateAuth_address)
  qed
  have later: "\<forall>v. initializeAuth c' v = Some (Inr r, c', v)"
    using run by (simp add: initializeAuth_def)
  from run addr later show ?thesis by blast
qed

text \<open>The memo of any coordinator, fresh or not: a call that returns a state leaves its
  address in \<open>authState\<close>, and later calls return it.\<close>

lemma initializeAuth_memo_kept:
  assumes "initializeAuth c w = Some (Inr r, c', w')"
  shows "authState c' = Some r \<and> (\<forall>v. initializeAuth c' v = Some (Inr r, c', v))"
proof -
  have m: "authState c' = Some r"
    using assms
    by (auto simp: initializeAuth_def split: option.splits if_splits prod.splits sum.splits)
  then show ?thesis by (simp add: initializeAuth_def)
qed

text \<open>A first call that throws leaves the coordinator as it was: nothing is memoized, and
  the next call selects the strategy again.\<close>

lemma initializeAuth_failure:
  assumes "initializeAuth (createLazyAuthCoordinator h opts) w = Some (Inl e, c', w')"
  shows "c' = createLazyAuthCoordinator h opts"
  using assms
  by (auto simp: initializeAuth_def createLazyAuthCoordinator_def
        split: if_splits prod.splits sum.splits option.splits)

lemma replace_none:
  "replaceAll ''{server_url_hash}'' x
     (replaceAll ''{session_id}'' y ''https://bridge.example.com/poll'') =
   ''https://bridge.example.com/poll''"
  by code_simp

lemma show_nat_4242: "show_nat 4242 = ''4242''"
  by code_simp

lemma resolve_test:
  "resolveBridgePollUrl test_world ''https://bridge.example.com/poll'' ''server-hash-4242''
     ''server-hash'' =
   Inr ''https://bridge.example.com/poll?session_id=server-hash-4242&server_url_hash=server-hash''"
  by (simp add: resolveBridgePollUrl_def replace_none test_world_def)

lemma bridge_strategy:
  "coordinateBridgeAuth test_world ''server-hash'' bridge_options =
     (Inr 0,
      test_world\<lparr> heap :=
        [\<lparr> server = None,
           waitForAuthCode = BridgeWait
             ''https://bridge.example.com/poll?session_id=server-hash-4242&server_url_hash=server-hash''
             1 40,
           skipBrowserAuth = False \<rparr>] \<rparr>)"
proof -
  have pid: "process_pid test_world = 4242" and hp: "heap test_world = []"
    by (simp_all add: test_world_def)
  show ?thesis
    by (simp add: bridge_options_def coordinateBridgeAuth_def truthy_str_def or_default_def
        show_nat_4242 pid hp resolve_test new_object_def)
qed

lemma bridge_first_call:
  "initializeAuth (createLazyAuthCoordinator ''server-hash'' bridge_options) test_world =
     Some (Inr 0,
           (createLazyAuthCoordinator ''server-hash'' bridge_options)\<lparr> authState := Some 0 \<rparr>,
           snd (coordinateBridgeAuth test_world ''server-hash'' bridge_options))"
proof -
  have m: "authMode bridge_options = Bridge"
    by (simp add: bridge_options_def)
  show ?thesis
    by (simp add: initializeAuth_def createLazyAuthCoordinator_def m bridge_strategy)
qed

lemma local_first_call:
  "initializeAuth (createLazyAuthCoordinator ''server-hash'' local_options)
       (test_world\<lparr> platform := ''win32'' \<rparr>) =
     Some (Inr 0,
           (createLazyAuthCoordinator ''server-hash'' local_options)\<lparr> authState := Some 0 \<rparr>,
           snd (become_primary (test_world\<lparr> platform := ''win32'' \<rparr>) ''server-hash'' 3333 30000))"
proof -
  let ?w = "test_world\<lparr> platform := ''win32'' \<rparr>"
  have o: "authMode local_options = Local" "callbackPort local_options = 3333"
      "authTimeoutMs local_options = 30000"
    by (simp_all add: local_options_def)
  have l: "listen ?w 3333 = Some 3333" "heap ?w = []"
    by (simp_all add: test_world_def)
  have r: "fst (become_primary ?w ''server-hash'' 3333 30000) = Inr 0"
    using become_primary_result [OF l(1), of "''server-hash''" 30000] l(2) by simp
  have c: "coordinateAuth ?w ''server-hash'' 3333 30000 =
      Some (Inr 0, snd (become_primary ?w ''server-hash'' 3333 30000))"
    using r by (simp add: win32_primary prod_eq_iff)
  show ?thesis
    by (simp add: initializeAuth_def createLazyAuthCoordinator_def o c)
qed

text \<open>
  The bridge coordinator of the test suite, and a local coordinator on Windows: the
  first call returns object 0, built by the strategy of the mode, and the second call
  returns object 0 again and leaves the world of the second call untouched.
\<close>

theorem initializeAuth_memoized_witness:
  "(\<exists>c' w'. initializeAuth (createLazyAuthCoordinator ''server-hash'' bridge_options) test_world =
             Some (Inr 0, c', w') \<and>
           coordinateBridgeAuth test_world ''server-hash'' bridge_options = (Inr 0, w') \<and>
           0 < length (heap w') \<and>
           authState c' = Some 0 \<and>
           initializeAuth c' w' = Some (Inr 0, c', w')) \<and>
   (\<exists>c' w'. initializeAuth (createLazyAuthCoordinator ''server-hash'' local_options)
               (test_world\<lparr> platform := ''win32'' \<rparr>) = Some (Inr 0, c', w') \<and>
           coordinateAuth (test_world\<lparr> platform := ''win32'' \<rparr>) ''server-hash'' 3333 30000 =
             Some (Inr 0, w') \<and>
           0 < length (heap w') \<and>
           authState c' = Some 0 \<and>
           initializeAuth c' w' = Some (Inr 0, c', w'))"
proof -
  have mb: "authMode bridge_options = Bridge"
    by (simp add: bridge_options_def)
  have ml: "authMode local_options \<noteq> Bridge" "callbackPort local_options = 3333"
      "authTimeoutMs local_options = 30000"
    by (simp_all add: local_options_def)
  from initializeAuth_memoized [OF bridge_first_call] mb bridge_first_call
  have b: "\<exists>c' w'. initializeAuth (createLazyAuthCoordinator ''server-hash'' bridge_options)
               test_world = Some (Inr 0, c', w') \<and>
           coordinateBridgeAuth test_world ''server-hash'' bridge_options = (Inr 0, w') \<and>
           0 < length (heap w') \<and>
           authState c' = Some 0 \<and>
           initializeAuth c' w' = Some (Inr 0, c', w')"
    by (intro exI [of _ "(createLazyAuthCoordinator ''server-hash'' bridge_options)
                            \<lparr> authState := Some 0 \<rparr>"]
              exI [of _ "snd (coordinateBridgeAuth test_world ''server-hash'' bridge_options)"])
       simp
  from initializeAuth_memoized [OF local_first_call] ml local_first_call
  have l: "\<exists>c' w'. initializeAuth (createLazyAuthCoordinator ''server-hash'' local_options)
               (test_world\<lparr> platform := ''win32'' \<rparr>) = Some (Inr 0, c', w') \<and>
           coordinateAuth (test_world\<lparr> platform := ''win32'' \<rparr>) ''server-hash'' 3333 30000 =
             Some (Inr 0, w') \<and>
           0 < length (heap w') \<and>
           authState c' = Some 0 \<and>
           initializeAuth c' w' = Some (Inr 0, c', w')"
    by (intro exI [of _ "(createLazyAuthCoordinator ''server-hash'' local_options)
                            \<lparr> authState := Some 0 \<rparr>"]
              exI [of _ "snd (become_primary (test_world\<lparr> platform := ''win32'' \<rparr>)
                                ''server-hash'' 3333 30000)"])
       simp
  from b l show ?thesis by blast
qed

section \<open>Bridge polling: properties\<close>

lemma lacking_code_not_extracted:
  assumes "trim body \<noteq> []" and "parse (trim body) = Some v" and "lacks_code v"
  shows "\<not> truthy_opt (extractAuthCode parse body)"
  using assms
  by (cases v) (auto simp: extractAuthCode_def lacks_code_def field_def truthy_opt_def Let_def)

lemma class_continue:
  assumes "keep_polling_class parse r"
  shows "poll_once parse r = Continue"
proof (cases r)
  case (NetworkError m)
  with assms show ?thesis by (simp add: keep_polling_class_def poll_once_def)
next
  case (Answer s body)
  show ?thesis
  proof (cases "s = 200")
    case False
    with Answer assms show ?thesis by (auto simp: keep_polling_class_def poll_once_def)
  next
    case True
    with Answer assms have c: "trim body = [] \<or>
        (case parse (trim body) of None \<Rightarrow> True | Some v \<Rightarrow> lacks_code v)"
      by (simp add: keep_polling_class_def)
    have "\<not> truthy_opt (extractAuthCode parse body)"
    proof (cases "trim body = []")
      case True
      then show ?thesis by (simp add: extractAuthCode_def truthy_opt_def)
    next
      case False
      show ?thesis
      proof (cases "parse (trim body)")
        case None
        with False show ?thesis by (simp add: extractAuthCode_def truthy_opt_def)
      next
        case (Some v)
        with c False have "lacks_code v" by simp
        with False Some show ?thesis by (rule lacking_code_not_extracted)
      qed
    qed
    with Answer True show ?thesis by (simp add: poll_once_def Let_def)
  qed
qed

lemma fetched_class_continue:
  assumes "keep_polling_class (JSON_parse w) (ev_outcome (net w (fetched w) url))"
  shows "poll_once (JSON_parse w) (fetch_result w url (Some 10000)) = Continue"
proof (cases "ev_latency (net w (fetched w) url) < 10000")
  case True
  with assms show ?thesis by (simp add: fetch_result_def class_continue)
next
  case False
  then show ?thesis by (simp add: fetch_result_def poll_once_def)
qed

lemma loop_enter:
  "now w - start < tmo \<Longrightarrow>
   bridge_poll_loop w url iv tmo start =
     (case poll_once (JSON_parse w) (fetch_result w url (Some 10000)) of
        Return code \<Rightarrow> (Inr code, after_fetch w url (Some 10000))
      | Throw message \<Rightarrow> (Inl message, after_fetch w url (Some 10000))
      | Continue \<Rightarrow> bridge_poll_loop (sleep (after_fetch w url (Some 10000)) iv) url iv tmo start)"
  by (subst bridge_poll_loop.simps) simp

lemma loop_exit:
  "\<not> now w - start < tmo \<Longrightarrow>
   bridge_poll_loop w url iv tmo start = (Inl (timeout_message tmo), w)"
  by (subst bridge_poll_loop.simps) simp

lemma pass_takes_time: "now w < now (sleep (after_fetch w url a) iv)"
  by (simp add: sleep_def after_fetch_def timer_delay_def Let_def)

lemma loop_times_out:
  "(\<forall>k. keep_polling_class (JSON_parse w) (ev_outcome (net w k url))) \<longrightarrow>
   fst (bridge_poll_loop w url iv tmo start) = Inl (timeout_message tmo) \<and>
   tmo \<le> now (snd (bridge_poll_loop w url iv tmo start)) - start \<and>
   int (fetched (snd (bridge_poll_loop w url iv tmo start))) \<le>
     int (fetched w) + max 0 (tmo - (now w - start))"
proof (induction w url iv tmo start rule: bridge_poll_loop.induct)
  case (1 w url iv tmo start)
  show ?case
  proof (intro impI)
    assume cls: "\<forall>k. keep_polling_class (JSON_parse w) (ev_outcome (net w k url))"
    show "fst (bridge_poll_loop w url iv tmo start) = Inl (timeout_message tmo) \<and>
      tmo \<le> now (snd (bridge_poll_loop w url iv tmo start)) - start \<and>
      int (fetched (snd (bridge_poll_loop w url iv tmo start))) \<le>
        int (fetched w) + max 0 (tmo - (now w - start))"
    proof (cases "now w - start < tmo")
      case False
      then show ?thesis by (simp add: loop_exit)
    next
      case True
      let ?w' = "sleep (after_fetch w url (Some 10000)) iv"
      have cont: "poll_once (JSON_parse w) (fetch_result w url (Some 10000)) = Continue"
        using cls by (simp add: fetched_class_continue)
      have step: "bridge_poll_loop w url iv tmo start = bridge_poll_loop ?w' url iv tmo start"
        using True cont by (simp add: loop_enter)
      have cls': "\<forall>k. keep_polling_class (JSON_parse ?w') (ev_outcome (net ?w' k url))"
        using cls by simp
      from "1.IH" [OF True cont] cls'
      have ih: "fst (bridge_poll_loop ?w' url iv tmo start) = Inl (timeout_message tmo) \<and>
        tmo \<le> now (snd (bridge_poll_loop ?w' url iv tmo start)) - start \<and>
        int (fetched (snd (bridge_poll_loop ?w' url iv tmo start))) \<le>
          int (fetched ?w') + max 0 (tmo - (now ?w' - start))"
        by blast
      have time: "now w < now ?w'" by (rule pass_takes_time)
      have "int (fetched ?w') + max 0 (tmo - (now ?w' - start)) \<le>
          int (fetched w) + max 0 (tmo - (now w - start))"
        using time True by (simp add: max_def)
      with ih have "int (fetched (snd (bridge_poll_loop ?w' url iv tmo start))) \<le>
          int (fetched w) + max 0 (tmo - (now w - start))"
        by linarith
      with ih step show ?thesis by simp
    qed
  qed
qed

lemma loop_fetched_mono:
  "fetched w \<le> fetched (snd (bridge_poll_loop w url iv tmo start))"
proof (induction w url iv tmo start rule: bridge_poll_loop.induct)
  case (1 w url iv tmo start)
  show ?case
  proof (cases "now w - start < tmo")
    case False
    then show ?thesis by (simp add: loop_exit)
  next
    case True
    show ?thesis
    proof (cases "poll_once (JSON_parse w) (fetch_result w url (Some 10000))")
      case (Return code)
      with True show ?thesis by (simp add: loop_enter)
    next
      case (Throw message)
      with True show ?thesis by (simp add: loop_enter)
    next
      case Continue
      with True "1.IH" [OF True Continue] show ?thesis by (simp add: loop_enter)
    qed
  qed
qed

text \<open>
  C4. For every poll interval and every positive overall timeout (so that a first poll
  is issued), if the first poll is answered with status 410, \<open>waitForBridgeAuthCode\<close>
  throws \<open>Auth bridge session expired\<close> at once: the only effect of the call is that one
  request, with no sleep and no second request.
\<close>

theorem bridge_session_expired:
  assumes "0 < timeoutMs"
    and "fetch_result w pollUrl (Some 10000) = Answer 410 body"
  shows "fst (waitForBridgeAuthCode w pollUrl pollIntervalMs timeoutMs) =
           Inl ''Auth bridge session expired'' \<and>
         effects (snd (waitForBridgeAuthCode w pollUrl pollIntervalMs timeoutMs)) =
           effects w @ [Fetch pollUrl] \<and>
         fetched (snd (waitForBridgeAuthCode w pollUrl pollIntervalMs timeoutMs)) =
           Suc (fetched w)"
  using assms by (simp add: waitForBridgeAuthCode_def loop_enter poll_once_def)

text \<open>With a timeout that is not positive the loop body never runs: no request is sent and
  no response is received.\<close>

lemma bridge_no_time_no_poll:
  "timeoutMs \<le> 0 \<Longrightarrow>
   waitForBridgeAuthCode w pollUrl pollIntervalMs timeoutMs = (Inl (timeout_message timeoutMs), w)"
  by (simp add: waitForBridgeAuthCode_def loop_exit)

text \<open>The bridge of the test suite answers 410 to every request; timeout 40 ms, interval
  1 ms.\<close>

theorem bridge_session_expired_witness:
  "(0::int) < 40 \<and>
   fetch_result (test_world\<lparr> net := constant_net (Answer 410 []) \<rparr>)
     ''https://bridge.example.com/poll'' (Some 10000) = Answer 410 [] \<and>
   fst (waitForBridgeAuthCode (test_world\<lparr> net := constant_net (Answer 410 []) \<rparr>)
          ''https://bridge.example.com/poll'' 1 40) = Inl ''Auth bridge session expired'' \<and>
   effects (snd (waitForBridgeAuthCode (test_world\<lparr> net := constant_net (Answer 410 []) \<rparr>)
                   ''https://bridge.example.com/poll'' 1 40)) =
     [Fetch ''https://bridge.example.com/poll'']"
proof -
  let ?w = "test_world\<lparr> net := constant_net (Answer 410 []) \<rparr>"
  have p: "(0::int) < 40" by simp
  have f: "fetch_result ?w ''https://bridge.example.com/poll'' (Some 10000) = Answer 410 []"
    by (simp add: fetch_result_def constant_net_def)
  have e: "effects ?w = []" by (simp add: test_world_def)
  from bridge_session_expired [OF p f, of 1] p f e show ?thesis by simp
qed

text \<open>
  C5. For every positive overall timeout, if every response of the bridge is in the
  keep-polling class, \<open>waitForBridgeAuthCode\<close> returns: it throws the timeout error, whose
  message gives \<open>floor(timeoutMs / 1000)\<close> seconds. It stops at the first loop test at
  which the elapsed time has reached the timeout, after at least one and at most
  \<open>timeoutMs\<close> requests (every pass takes at least a millisecond).
\<close>

theorem bridge_times_out:
  assumes "0 < timeoutMs"
    and "\<forall>k. keep_polling_class (JSON_parse w) (ev_outcome (net w k pollUrl))"
  shows "\<exists>w'. waitForBridgeAuthCode w pollUrl pollIntervalMs timeoutMs =
           (Inl (''Timed out waiting for auth code from bridge after '' @
                   show_int (timeoutMs div 1000) @ '' seconds.''), w') \<and>
           timeoutMs \<le> now w' - now w \<and>
           fetched w < fetched w' \<and>
           int (fetched w') \<le> int (fetched w) + timeoutMs"
proof -
  let ?r = "waitForBridgeAuthCode w pollUrl pollIntervalMs timeoutMs"
  let ?w1 = "sleep (after_fetch w pollUrl (Some 10000)) pollIntervalMs"
  have main: "fst ?r = Inl (timeout_message timeoutMs) \<and> timeoutMs \<le> now (snd ?r) - now w \<and>
      int (fetched (snd ?r)) \<le> int (fetched w) + max 0 (timeoutMs - (now w - now w))"
    using loop_times_out [of w pollUrl pollIntervalMs timeoutMs "now w"] assms(2)
    by (simp only: waitForBridgeAuthCode_def) blast
  have cont: "poll_once (JSON_parse w) (fetch_result w pollUrl (Some 10000)) = Continue"
    using assms(2) by (simp add: fetched_class_continue)
  have step: "?r = bridge_poll_loop ?w1 pollUrl pollIntervalMs timeoutMs (now w)"
    using assms(1) cont by (simp add: waitForBridgeAuthCode_def loop_enter)
  have cls': "\<forall>k. keep_polling_class (JSON_parse ?w1) (ev_outcome (net ?w1 k pollUrl))"
    using assms(2) by simp
  have "fetched ?w1 \<le> fetched (snd ?r)"
    by (simp only: step loop_fetched_mono)
  then have more: "fetched w < fetched (snd ?r)" by simp
  from main more show ?thesis
    by (intro exI [of _ "snd ?r"]) (auto simp: timeout_message_def prod_eq_iff)
qed

lemma show_int_0: "show_int 0 = ''0''"
  by code_simp

text \<open>The bridge of the test suite stays pending: 202 to every request; timeout 10 ms,
  interval 1 ms.\<close>

theorem bridge_times_out_witness:
  "(0::int) < 10 \<and>
   keep_polling_class test_parse (Answer 202 []) \<and>
   (\<exists>w'. waitForBridgeAuthCode (test_world\<lparr> net := constant_net (Answer 202 []) \<rparr>)
            ''https://bridge.example.com/poll'' 1 10 =
          (Inl ''Timed out waiting for auth code from bridge after 0 seconds.'', w') \<and>
          10 \<le> now w' - 1700000000000 \<and> 0 < fetched w' \<and> fetched w' \<le> 10)"
proof -
  let ?w = "test_world\<lparr> net := constant_net (Answer 202 []) \<rparr>"
  have p: "(0::int) < 10" by simp
  have c: "keep_polling_class test_parse (Answer 202 [])"
    by (simp add: keep_polling_class_def)
  have k: "\<forall>k. keep_polling_class (JSON_parse ?w)
             (ev_outcome (net ?w k ''https://bridge.example.com/poll''))"
    using c by (simp add: test_world_def constant_net_def)
  have w: "now ?w = 1700000000000" "fetched ?w = 0"
    by (simp_all add: test_world_def)
  from bridge_times_out [OF p k, of 1] p c show ?thesis
    by (simp add: w show_int_0)
qed

lemma extract_code:
  assumes "trim body \<noteq> []" and "parse (trim body) = Some v"
    and "field v ''code'' = Some (JStr c)" and "c \<noteq> []"
  shows "extractAuthCode parse body = Some (JStr c)"
  using assms
  by (cases v) (auto simp: extractAuthCode_def field_def truthy_opt_def Let_def)

lemma extract_authorization_code:
  assumes "trim body \<noteq> []" and "parse (trim body) = Some v"
    and "field v ''code'' = None \<or> field v ''code'' = Some (JStr [])"
  shows "extractAuthCode parse body = field v ''authorization_code''"
  using assms
  by (cases v) (auto simp: extractAuthCode_def field_def truthy_opt_def Let_def)

text \<open>
  C10. Take a pass of the loop whose request is answered 200 with a body that parses as
  JSON (its trimmed text is not empty and \<open>JSON.parse\<close> returns a value \<open>v\<close>).
  \<^item> If \<open>code\<close> is a non-empty string, the call returns it, whether \<open>authorization_code\<close>
    is present or not.
  \<^item> If \<open>code\<close> is absent or the empty string and \<open>authorization_code\<close> is a non-empty
    string, the call returns \<open>authorization_code\<close>.
  \<^item> If each of the two is absent or the empty string, the pass ends in the sleep and
    the loop goes on with the next poll.
\<close>

theorem bridge_code_fields:
  assumes "now w - start < tmo"
    and "fetch_result w url (Some 10000) = Answer 200 body"
    and "trim body \<noteq> []"
    and "JSON_parse w (trim body) = Some v"
  shows "(field v ''code'' = Some (JStr c) \<and> c \<noteq> [] \<longrightarrow>
            bridge_poll_loop w url iv tmo start =
              (Inr (JStr c), after_fetch w url (Some 10000))) \<and>
         ((field v ''code'' = None \<or> field v ''code'' = Some (JStr [])) \<and>
          field v ''authorization_code'' = Some (JStr a) \<and> a \<noteq> [] \<longrightarrow>
            bridge_poll_loop w url iv tmo start =
              (Inr (JStr a), after_fetch w url (Some 10000))) \<and>
         ((field v ''code'' = None \<or> field v ''code'' = Some (JStr [])) \<and>
          (field v ''authorization_code'' = None \<or>
           field v ''authorization_code'' = Some (JStr [])) \<longrightarrow>
            bridge_poll_loop w url iv tmo start =
              bridge_poll_loop (sleep (after_fetch w url (Some 10000)) iv) url iv tmo start)"
proof (intro conjI impI)
  assume "field v ''code'' = Some (JStr c) \<and> c \<noteq> []"
  then have "extractAuthCode (JSON_parse w) body = Some (JStr c)"
    using assms(3,4) by (simp add: extract_code)
  then show "bridge_poll_loop w url iv tmo start = (Inr (JStr c), after_fetch w url (Some 10000))"
    using assms(1,2) \<open>field v ''code'' = Some (JStr c) \<and> c \<noteq> []\<close>
    by (simp add: loop_enter poll_once_def truthy_opt_def)
next
  assume h: "(field v ''code'' = None \<or> field v ''code'' = Some (JStr [])) \<and>
     field v ''authorization_code'' = Some (JStr a) \<and> a \<noteq> []"
  then have "extractAuthCode (JSON_parse w) body = Some (JStr a)"
    using assms(3,4) extract_authorization_code [of body "JSON_parse w" v] by simp
  then show "bridge_poll_loop w url iv tmo start = (Inr (JStr a), after_fetch w url (Some 10000))"
    using assms(1,2) h by (simp add: loop_enter poll_once_def truthy_opt_def)
next
  assume h: "(field v ''code'' = None \<or> field v ''code'' = Some (JStr [])) \<and>
     (field v ''authorization_code'' = None \<or> field v ''authorization_code'' = Some (JStr []))"
  then have "extractAuthCode (JSON_parse w) body = field v ''authorization_code''"
    using assms(3,4) extract_authorization_code [of body "JSON_parse w" v] by simp
  with h have "\<not> truthy_opt (extractAuthCode (JSON_parse w) body)"
    by (auto simp: truthy_opt_def)
  then show "bridge_poll_loop w url iv tmo start =
      bridge_poll_loop (sleep (after_fetch w url (Some 10000)) iv) url iv tmo start"
    using assms(1,2) by (simp add: loop_enter poll_once_def Let_def)
qed

lemma trim_bodies:
  "trim both_body = both_body" "trim authorization_code_body = authorization_code_body"
  "trim ''{}'' = ''{}''"
  by (simp_all add: trim_def is_ws_def both_body_def authorization_code_body_def quoted_def)

lemma parse_bodies:
  "test_parse both_body =
     Some (JObj [(''code'', JStr ''auth-code-1''), (''authorization_code'', JStr ''auth-code-2'')])"
  "test_parse authorization_code_body = Some (JObj [(''authorization_code'', JStr ''auth-code-2'')])"
  "test_parse ''{}'' = Some (JObj [])"
  by (simp_all add: test_parse_def both_body_def authorization_code_body_def code_body_def
        quoted_def)

text \<open>
  A body with both fields yields \<open>code\<close>; the test suite's body with
  \<open>authorization_code\<close> alone yields that; the empty object sends the loop to its next
  pass.
\<close>

theorem bridge_code_fields_witness:
  "waitForBridgeAuthCode (test_world\<lparr> net := constant_net (Answer 200 both_body) \<rparr>)
     ''https://bridge.example.com/poll'' 1 40 =
     (Inr (JStr ''auth-code-1''),
      after_fetch (test_world\<lparr> net := constant_net (Answer 200 both_body) \<rparr>)
        ''https://bridge.example.com/poll'' (Some 10000)) \<and>
   waitForBridgeAuthCode (test_world\<lparr> net := constant_net (Answer 200 authorization_code_body) \<rparr>)
     ''https://bridge.example.com/poll'' 1 40 =
     (Inr (JStr ''auth-code-2''),
      after_fetch (test_world\<lparr> net := constant_net (Answer 200 authorization_code_body) \<rparr>)
        ''https://bridge.example.com/poll'' (Some 10000)) \<and>
   waitForBridgeAuthCode (test_world\<lparr> net := constant_net (Answer 200 ''{}'') \<rparr>)
     ''https://bridge.example.com/poll'' 1 40 =
     bridge_poll_loop
       (sleep (after_fetch (test_world\<lparr> net := constant_net (Answer 200 ''{}'') \<rparr>)
                 ''https://bridge.example.com/poll'' (Some 10000)) 1)
       ''https://bridge.example.com/poll'' 1 40 1700000000000"
proof -
  let ?url = "''https://bridge.example.com/poll''"
  let ?w = "\<lambda>b. test_world\<lparr> net := constant_net (Answer 200 b) \<rparr>"
  have t: "\<And>b. now (?w b) - now (?w b) < 40" by simp
  have f: "\<And>b. fetch_result (?w b) ?url (Some 10000) = Answer 200 b"
    by (simp add: fetch_result_def constant_net_def)
  have j: "\<And>b. JSON_parse (?w b) = test_parse" by (simp add: test_world_def)
  have n: "\<And>b. now (?w b) = 1700000000000" by (simp add: test_world_def)
  have ne: "both_body \<noteq> []" "authorization_code_body \<noteq> []"
    by (simp_all add: both_body_def authorization_code_body_def)
  have 1: "bridge_poll_loop (?w both_body) ?url 1 40 (now (?w both_body)) =
      (Inr (JStr ''auth-code-1''), after_fetch (?w both_body) ?url (Some 10000))"
    using bridge_code_fields [OF t f, where c = "''auth-code-1''" and iv = 1]
    by (simp add: trim_bodies parse_bodies j ne field_def)
  have 2: "bridge_poll_loop (?w authorization_code_body) ?url 1 40
        (now (?w authorization_code_body)) =
      (Inr (JStr ''auth-code-2''), after_fetch (?w authorization_code_body) ?url (Some 10000))"
    using bridge_code_fields [OF t f, where a = "''auth-code-2''" and iv = 1]
    by (simp add: trim_bodies parse_bodies j ne field_def)
  have 3: "bridge_poll_loop (?w ''{}'') ?url 1 40 (now (?w ''{}'')) =
      bridge_poll_loop (sleep (after_fetch (?w ''{}'') ?url (Some 10000)) 1) ?url 1 40
        (now (?w ''{}''))"
    using bridge_code_fields [OF t f, where iv = 1]
    by (simp add: trim_bodies parse_bodies j field_def)
  from 1 2 3 show ?thesis
    by (simp only: waitForBridgeAuthCode_def n)
qed

end
